theory Spec2Isabelle
  imports Complex_Main "HOL-Library.Word" "HOL-Library.Multiset"
begin

chapter \<open>The chip-identification report engine (report.c)\<close>

text \<open>
  This theory embeds \<^verbatim>\<open>report.c\<close>: the statistics over the results log, the datasheet
  loader, the closest-prediction matcher, the candidate lists and their intersection, the
  final scorer and the writer of \<^verbatim>\<open>report.csv\<close>.  Files are lists of lines, C strings
  are \<^typ>\<open>string\<close> (no embedded NUL), \<^verbatim>\<open>uint32_t\<close> is \<^typ>\<open>32 word\<close>, and a row of the
  report is kept as its title and three cells, each cell remembering the \<^verbatim>\<open>printf\<close>
  conversion that produced it.
\<close>

section \<open>Single-precision values\<close>

text \<open>
  A C \<^verbatim>\<open>float\<close> is either NaN or a finite number; a finite number is kept as the rational
  it denotes.  Every arithmetic operation computes the exact rational result and rounds it
  to the nearest binary32 value, ties to even (24 significant bits, gradual underflow below
  \<open>2\<^sup>-\<^sup>1\<^sup>2\<^sup>6\<close>).  Infinities and the sign of zero are outside the model: a result beyond
  the binary32 range stays a finite rational.  Comparisons with NaN are false.
\<close>

datatype cfloat = NaN | Fin rat

function ilog2 :: "int \<Rightarrow> int" where
  "ilog2 n = (if n < 2 then 0 else 1 + ilog2 (n div 2))"
  by pat_completeness auto
termination
  by (relation "measure nat") auto

declare ilog2.simps [simp del]

definition pow2 :: "int \<Rightarrow> rat" where
  "pow2 k = (if 0 \<le> k then 2 ^ nat k else 1 / 2 ^ nat (- k))"

definition round_half_even :: "rat \<Rightarrow> int" where
  "round_half_even x =
     (let f = \<lfloor>x\<rfloor>; r = x - of_int f
      in if r < 1 / 2 then f else if 1 / 2 < r then f + 1 else if even f then f else f + 1)"

text \<open>\<open>binade x\<close> is the exponent \<open>e\<close> with \<open>2\<^sup>e \<le> x < 2\<^sup>e\<^sup>+\<^sup>1\<close>, for positive \<open>x\<close>.\<close>

definition binade :: "rat \<Rightarrow> int" where
  "binade x =
     (let (p, q) = quotient_of x;
          k = ilog2 p - ilog2 q
      in if pow2 k \<le> x then k else k - 1)"

definition round_to :: "nat \<Rightarrow> int \<Rightarrow> rat \<Rightarrow> rat" where
  "round_to prec emin x =
     (if x = 0 then 0
      else let a = \<bar>x\<bar>;
               ue = max (binade a - int prec + 1) (emin - int prec + 1);
               m = round_half_even (a / pow2 ue)
           in sgn x * of_int m * pow2 ue)"

definition f32 :: "rat \<Rightarrow> rat" where
  "f32 x = round_to 24 (- 126) x"

definition f64 :: "rat \<Rightarrow> rat" where
  "f64 x = round_to 53 (- 1022) x"

fun fadd :: "cfloat \<Rightarrow> cfloat \<Rightarrow> cfloat" where
  "fadd (Fin a) (Fin b) = Fin (f32 (a + b))"
| "fadd _ _ = NaN"

fun fsub :: "cfloat \<Rightarrow> cfloat \<Rightarrow> cfloat" where
  "fsub (Fin a) (Fin b) = Fin (f32 (a - b))"
| "fsub _ _ = NaN"

fun fmul :: "cfloat \<Rightarrow> cfloat \<Rightarrow> cfloat" where
  "fmul (Fin a) (Fin b) = Fin (f32 (a * b))"
| "fmul _ _ = NaN"

text \<open>No division of the program has a zero divisor: every divisor is a non-zero
  constant or is guarded by a test \<open>> 0\<close>.\<close>

fun fdiv :: "cfloat \<Rightarrow> cfloat \<Rightarrow> cfloat" where
  "fdiv (Fin a) (Fin b) = (if b = 0 then NaN else Fin (f32 (a / b)))"
| "fdiv _ _ = NaN"

fun fabsf :: "cfloat \<Rightarrow> cfloat" where
  "fabsf (Fin a) = Fin \<bar>a\<bar>"
| "fabsf NaN = NaN"

fun flt :: "cfloat \<Rightarrow> cfloat \<Rightarrow> bool" where
  "flt (Fin a) (Fin b) = (a < b)"
| "flt _ _ = False"

definition fgt :: "cfloat \<Rightarrow> cfloat \<Rightarrow> bool" where
  "fgt a b = flt b a"

fun is_nan :: "cfloat \<Rightarrow> bool" where
  "is_nan NaN = True"
| "is_nan (Fin _) = False"

text \<open>Conversions \<^verbatim>\<open>(float)i\<close> of an \<^verbatim>\<open>int\<close> or \<^verbatim>\<open>unsigned\<close> value.\<close>

definition float_of_int :: "int \<Rightarrow> cfloat" where
  "float_of_int i = Fin (f32 (of_int i))"

definition float_of_u32 :: "32 word \<Rightarrow> cfloat" where
  "float_of_u32 w = float_of_int (uint w)"

text \<open>\<^verbatim>\<open>(uint32_t)x\<close> of a float truncates towards zero; C leaves a value outside the
  range undefined, the model reduces it modulo \<open>2\<^sup>3\<^sup>2\<close>.\<close>

fun u32_of_float :: "cfloat \<Rightarrow> 32 word" where
  "u32_of_float (Fin x) = word_of_int (if 0 \<le> x then \<lfloor>x\<rfloor> else \<lceil>x\<rceil>)"
| "u32_of_float NaN = 0"

section \<open>The C library\<close>

text \<open>
  \<^verbatim>\<open>strtol\<close>, \<^verbatim>\<open>strtof\<close> and \<^verbatim>\<open>sqrtf\<close> come from the C library, not from the repository;
  the engine is parametrised by them.  A conversion returns \<open>None\<close> when it consumes no
  character (\<^verbatim>\<open>end == s\<close>).
\<close>

record libc =
  strtol :: "string \<Rightarrow> int option"
  strtof :: "string \<Rightarrow> cfloat option"
  sqrtf :: "rat \<Rightarrow> rat"

section \<open>Constants, groups and small utilities\<close>

definition MAX_DB_ROWS :: nat where "MAX_DB_ROWS = 512"
definition MAX_LINE :: nat where "MAX_LINE = 512"
definition NA_STR :: string where "NA_STR = ''NA''"
definition PAGE_SIZE_BYTES :: "32 word" where "PAGE_SIZE_BYTES = 256"

datatype group_t = G_1B | G_256B | G_4K | G_32K | G_64K | G_WHOLE

text \<open>The loops \<^verbatim>\<open>for (g = 0; g < G_COUNT; ++g)\<close> visit the groups in this order.\<close>

definition groups :: "group_t list" where
  "groups = [G_1B, G_256B, G_4K, G_32K, G_64K, G_WHOLE]"

fun GROUP_BYTES :: "group_t \<Rightarrow> 32 word" where
  "GROUP_BYTES G_1B = 1"
| "GROUP_BYTES G_256B = 256"
| "GROUP_BYTES G_4K = 4096"
| "GROUP_BYTES G_32K = 32768"
| "GROUP_BYTES G_64K = 65536"
| "GROUP_BYTES G_WHOLE = 0"

fun group_suffix :: "group_t \<Rightarrow> string" where
  "group_suffix G_1B = ''1B''"
| "group_suffix G_256B = ''256B''"
| "group_suffix G_4K = ''4096B''"
| "group_suffix G_32K = ''32768B''"
| "group_suffix G_64K = ''65536B''"
| "group_suffix G_WHOLE = ''WHOLE''"

definition is_trail :: "char \<Rightarrow> bool" where
  "is_trail c = (c = CHR 0x0D \<or> c = CHR 0x0A \<or> c = CHR '' '' \<or> c = CHR 0x09)"

definition is_blank :: "char \<Rightarrow> bool" where
  "is_blank c = (c = CHR '' '' \<or> c = CHR 0x09)"

definition trim :: "string \<Rightarrow> string" where
  "trim s = dropWhile is_blank (rev (dropWhile is_trail (rev s)))"

definition toupper :: "char \<Rightarrow> char" where
  "toupper c =
     (case map_of (zip ''abcdefghijklmnopqrstuvwxyz'' ''ABCDEFGHIJKLMNOPQRSTUVWXYZ'') c of
        Some u \<Rightarrow> u | None \<Rightarrow> c)"

definition isxdigit :: "char \<Rightarrow> bool" where
  "isxdigit c = (c \<in> set ''0123456789abcdefABCDEF'')"

definition upper_str :: "string \<Rightarrow> string" where
  "upper_str s = map toupper s"

text \<open>\<open>split_char sep s\<close> cuts \<open>s\<close> at every separator, keeping empty fields.  \<^verbatim>\<open>strtok\<close>
  returns the maximal runs of non-separator characters, that is, the non-empty fields.\<close>

fun split_char :: "char \<Rightarrow> string \<Rightarrow> string list" where
  "split_char sep [] = [[]]"
| "split_char sep (c # cs) =
     (if c = sep then [] # split_char sep cs
      else (case split_char sep cs of [] \<Rightarrow> [[c]] | f # fs \<Rightarrow> (c # f) # fs))"

definition strtok_all :: "char \<Rightarrow> string \<Rightarrow> string list" where
  "strtok_all sep s = filter (\<lambda>t. t \<noteq> []) (split_char sep s)"

definition split_fields :: "string \<Rightarrow> nat \<Rightarrow> string list" where
  "split_fields line max_fields =
     (let sep = (if CHR '','' \<in> set line then CHR '','' else CHR 0x09)
      in take max_fields (strtok_all sep line))"

definition parse_float_or :: "libc \<Rightarrow> string \<Rightarrow> cfloat \<Rightarrow> cfloat" where
  "parse_float_or L s fallback =
     (if s = [] then fallback
      else (case strtof L s of None \<Rightarrow> fallback | Some v \<Rightarrow> v))"

definition parse_int_or :: "libc \<Rightarrow> string \<Rightarrow> int \<Rightarrow> int" where
  "parse_int_or L s fallback =
     (if s = [] then fallback
      else (case strtol L s of None \<Rightarrow> fallback | Some v \<Rightarrow> v))"

fun normalize_loop :: "string \<Rightarrow> string \<Rightarrow> string" where
  "normalize_loop [] tmp = tmp"
| "normalize_loop (c # cs) tmp =
     (if \<not> length tmp < 6 then tmp
      else if c = CHR ''x'' \<or> c = CHR ''X'' then normalize_loop cs tmp
      else if isxdigit c then normalize_loop cs (tmp @ [toupper c])
      else normalize_loop cs tmp)"

definition normalize_jedec :: "string \<Rightarrow> string" where
  "normalize_jedec inp =
     (let tmp = normalize_loop inp [] in if length tmp = 6 then tmp else [])"

text \<open>\<^verbatim>\<open>fatfs_gets(buf, len, fp)\<close> on one line of the file: the line and its newline, cut to
  \<open>len - 1\<close> characters (the rest of the line is read and dropped).\<close>

definition fatfs_gets :: "nat \<Rightarrow> string \<Rightarrow> string" where
  "fatfs_gets len line = take (len - 1) (line @ [CHR 0x0A])"

section \<open>Statistics\<close>

record stats_t =
  s_n :: int
  s_mean :: cfloat
  s_p25 :: cfloat
  s_p50 :: cfloat
  s_p75 :: cfloat
  s_minv :: cfloat
  s_maxv :: cfloat
  s_stddev :: cfloat

text \<open>The vectors of the aggregator only ever receive values that passed a test \<open>> 0\<close>,
  so a vector is a list of finite numbers.  \<^verbatim>\<open>qsort\<close> with \<^verbatim>\<open>cmp_float_asc\<close> is \<open>sort\<close>.\<close>

definition percentile_sorted :: "rat list \<Rightarrow> rat \<Rightarrow> cfloat" where
  "percentile_sorted v q =
     (let n = length v in
      if n = 0 then NaN
      else if q \<le> 0 then Fin (v ! 0)
      else if 1 \<le> q then Fin (v ! (n - 1))
      else let pos = f32 (q * f32 (of_nat (n - 1)));
               i = \<lfloor>pos\<rfloor>;
               j = \<lceil>pos\<rceil>;
               t = f32 (pos - f32 (of_int i))
           in Fin (f32 (f32 (f32 (1 - t) * v ! nat i) + f32 (t * v ! nat j))))"

definition calc_stats_from_vec :: "libc \<Rightarrow> rat list \<Rightarrow> stats_t" where
  "calc_stats_from_vec L src =
     (if src = [] then
        \<lparr>s_n = 0, s_mean = NaN, s_p25 = NaN, s_p50 = NaN, s_p75 = NaN,
         s_minv = NaN, s_maxv = NaN, s_stddev = NaN\<rparr>
      else
        let n = f32 (of_nat (length src));
            sum = foldl (\<lambda>s v. f32 (s + v)) 0 src;
            mn = foldl (\<lambda>m v. if v < m then v else m) (hd src) src;
            mx = foldl (\<lambda>m v. if m < v then v else m) (hd src) src;
            mean = f32 (sum / n);
            sorted = sort src;
            var = foldl (\<lambda>a v. let d = f32 (v - mean) in f32 (a + f32 (d * d))) 0 src
        in \<lparr>s_n = int (length src), s_mean = Fin mean,
            s_p25 = percentile_sorted sorted (1 / 4),
            s_p50 = percentile_sorted sorted (1 / 2),
            s_p75 = percentile_sorted sorted (3 / 4),
            s_minv = Fin mn, s_maxv = Fin mx,
            s_stddev = Fin (sqrtf L (f32 (var / n)))\<rparr>)"

section \<open>Aggregation of the results log\<close>

record agg_t =
  sck_MHz :: cfloat
  read_s :: "group_t \<Rightarrow> stats_t"
  write_s :: "group_t \<Rightarrow> stats_t"
  erase_s :: "group_t \<Rightarrow> stats_t"
  read_lat_ms :: "group_t \<Rightarrow> stats_t"
  read_mean_us :: "group_t \<Rightarrow> cfloat"

text \<open>The five local arrays of vectors of \<^verbatim>\<open>collect_aggregates\<close>.\<close>

record vecs =
  read_v :: "group_t \<Rightarrow> rat list"
  write_v :: "group_t \<Rightarrow> rat list"
  erase_v :: "group_t \<Rightarrow> rat list"
  read_us :: "group_t \<Rightarrow> rat list"
  read_lat_ms_v :: "group_t \<Rightarrow> rat list"

definition vec_push :: "(group_t \<Rightarrow> rat list) \<Rightarrow> group_t \<Rightarrow> rat \<Rightarrow> group_t \<Rightarrow> rat list" where
  "vec_push V g x = V(g := V g @ [x])"

definition classify_group :: "32 word \<Rightarrow> 32 word \<Rightarrow> group_t option" where
  "classify_group bytes whole_bytes =
     (if bytes = 1 then Some G_1B
      else if bytes = 256 then Some G_256B
      else if bytes = 4096 then Some G_4K
      else if bytes = 32768 then Some G_32K
      else if bytes = 65536 then Some G_64K
      else if whole_bytes \<noteq> 0 \<and> bytes = whole_bytes then Some G_WHOLE
      else None)"

text \<open>The test \<^verbatim>\<open>x > 0\<close> on a float: it fails on NaN, so past it \<open>x\<close> is a finite number.\<close>

fun positive :: "cfloat \<Rightarrow> rat option" where
  "positive (Fin x) = (if 0 < x then Some x else None)"
| "positive NaN = None"

text \<open>The tail of the loop body: the pushes for a line of operation \<open>op\<close> and size \<open>sz\<close>
  classified into group \<open>g\<close>.  In the read branch \<open>mbps\<close> is \<open>mb / secs\<close> when \<open>secs > 0\<close> and NaN otherwise,
  and it is pushed when it is not NaN and positive.\<close>

definition push_sample :: "vecs \<Rightarrow> group_t \<Rightarrow> string \<Rightarrow> 32 word \<Rightarrow> cfloat \<Rightarrow> vecs" where
  "push_sample V g op sz elapsed_us =
     (if op = ''read'' then
        (case positive elapsed_us of
           None \<Rightarrow> V
         | Some e \<Rightarrow>
             if sz \<noteq> 0 then
               let secs = f32 (e / 1000000);
                   mb = f32 (f32 (of_int (uint sz)) / 1048576);
                   V1 = (if 0 < secs \<and> 0 < f32 (mb / secs)
                         then V\<lparr>read_v := vec_push (read_v V) g (f32 (mb / secs))\<rparr>
                         else V);
                   V2 = V1\<lparr>read_us := vec_push (read_us V1) g e\<rparr>
               in V2\<lparr>read_lat_ms_v := vec_push (read_lat_ms_v V2) g (f32 (e / 1000))\<rparr>
             else V)
      else if op = ''program'' \<or> op = ''write'' then
        (case positive elapsed_us of
           None \<Rightarrow> V
         | Some e \<Rightarrow> V\<lparr>write_v := vec_push (write_v V) g (f32 (e / 1000))\<rparr>)
      else if op = ''erase'' then
        (case positive elapsed_us of
           None \<Rightarrow> V
         | Some e \<Rightarrow> V\<lparr>erase_v := vec_push (erase_v V) g (f32 (e / 1000))\<rparr>)
      else V)"

text \<open>The head of the loop body: the line is read, trimmed, split at commas and
  classified.  The result is \<open>(g, op, size, elapsed_us)\<close>, or \<open>None\<close> where the loop
  \<^verbatim>\<open>continue\<close>s.\<close>

definition line_sample :: "libc \<Rightarrow> 32 word \<Rightarrow> string \<Rightarrow> (group_t \<times> string \<times> 32 word \<times> cfloat) option" where
  "line_sample L capacity_bytes raw =
     (let line = trim (fatfs_gets MAX_LINE raw) in
      if line = [] then None
      else
        let flds = take 16 (strtok_all (CHR '','') (take (MAX_LINE - 1) line)) in
        if length flds < 6 then None
        else
          let op = flds ! 1;
              sz = (word_of_int (parse_int_or L (flds ! 2) 0) :: 32 word);
              elapsed_us = parse_float_or L (flds ! 4) (Fin (- 1))
          in case classify_group sz capacity_bytes of
               None \<Rightarrow> None
             | Some g \<Rightarrow> Some (g, op, sz, elapsed_us))"

text \<open>One iteration of the \<^verbatim>\<open>while (fatfs_gets(...))\<close> loop.\<close>

definition collect_line :: "libc \<Rightarrow> 32 word \<Rightarrow> vecs \<Rightarrow> string \<Rightarrow> vecs" where
  "collect_line L capacity_bytes V raw =
     (case line_sample L capacity_bytes raw of
        None \<Rightarrow> V
      | Some (g, op, sz, elapsed_us) \<Rightarrow> push_sample V g op sz elapsed_us)"

definition empty_vecs :: vecs where
  "empty_vecs = \<lparr>read_v = (\<lambda>g. []), write_v = (\<lambda>g. []), erase_v = (\<lambda>g. []),
                 read_us = (\<lambda>g. []), read_lat_ms_v = (\<lambda>g. [])\<rparr>"

definition collect_vecs :: "libc \<Rightarrow> 32 word \<Rightarrow> string list \<Rightarrow> vecs" where
  "collect_vecs L capacity_bytes lines = foldl (collect_line L capacity_bytes) empty_vecs lines"

text \<open>The mean latency in microseconds is accumulated in a \<^verbatim>\<open>double\<close>.\<close>

definition mean_us :: "rat list \<Rightarrow> cfloat" where
  "mean_us v =
     (if v = [] then NaN
      else Fin (f32 (f64 (foldl (\<lambda>acc x. f64 (acc + x)) 0 v / f64 (of_nat (length v))))))"

definition zero_stats :: stats_t where
  "zero_stats = \<lparr>s_n = 0, s_mean = Fin 0, s_p25 = Fin 0, s_p50 = Fin 0, s_p75 = Fin 0,
                 s_minv = Fin 0, s_maxv = Fin 0, s_stddev = Fin 0\<rparr>"

text \<open>\<open>results = None\<close> is a \<^verbatim>\<open>RESULTS.CSV\<close> that cannot be opened: the three sections get
  the empty statistics, the read-latency section and \<open>read_mean_us\<close> keep the zero bytes
  of the initial \<^verbatim>\<open>memset\<close>.\<close>

definition collect_aggregates :: "libc \<Rightarrow> 32 word \<Rightarrow> string list option \<Rightarrow> 32 word \<Rightarrow> agg_t" where
  "collect_aggregates L baud_hz results capacity_bytes =
     (let sck = fdiv (float_of_u32 baud_hz) (Fin 1000000) in
      case results of
        None \<Rightarrow>
          \<lparr>sck_MHz = sck,
           read_s = (\<lambda>g. calc_stats_from_vec L []),
           write_s = (\<lambda>g. calc_stats_from_vec L []),
           erase_s = (\<lambda>g. calc_stats_from_vec L []),
           read_lat_ms = (\<lambda>g. zero_stats),
           read_mean_us = (\<lambda>g. Fin 0)\<rparr>
      | Some lines \<Rightarrow>
          let V = collect_vecs L capacity_bytes lines in
          \<lparr>sck_MHz = sck,
           read_s = (\<lambda>g. calc_stats_from_vec L (read_v V g)),
           write_s = (\<lambda>g. calc_stats_from_vec L (write_v V g)),
           erase_s = (\<lambda>g. calc_stats_from_vec L (erase_v V g)),
           read_lat_ms = (\<lambda>g. calc_stats_from_vec L (read_lat_ms_v V g)),
           read_mean_us = (\<lambda>g. mean_us (read_us V g))\<rparr>)"

section \<open>The datasheet loader\<close>

record db_row_t =
  jedec_norm :: string
  chip_model :: string
  company :: string
  family :: string
  capacity_mbit :: int
  typ_4k_ms :: cfloat
  typ_32k_ms :: cfloat
  typ_64k_ms :: cfloat
  typ_page_ms :: cfloat
  read50_MBps :: cfloat

text \<open>\<^verbatim>\<open>strstr(hay, needle)\<close> is non-NULL exactly when \<open>needle\<close> occurs in \<open>hay\<close>.\<close>

fun strstr :: "string \<Rightarrow> string \<Rightarrow> bool" where
  "strstr [] needle = (needle = [])"
| "strstr (h # hs) needle = (take (length needle) (h # hs) = needle \<or> strstr hs needle)"

text \<open>The column indices found in the header; \<open>None\<close> is the initial \<open>-1\<close>.\<close>

record col_idx =
  idx_model :: "nat option"
  idx_company :: "nat option"
  idx_family :: "nat option"
  idx_capacity :: "nat option"
  idx_jedec :: "nat option"
  idx_typprog :: "nat option"
  idx_typ4k :: "nat option"
  idx_typ32k :: "nat option"
  idx_typ64k :: "nat option"
  idx_read50 :: "nat option"

definition no_idx :: col_idx where
  "no_idx = \<lparr>idx_model = None, idx_company = None, idx_family = None, idx_capacity = None,
             idx_jedec = None, idx_typprog = None, idx_typ4k = None, idx_typ32k = None,
             idx_typ64k = None, idx_read50 = None\<rparr>"

definition header_step :: "col_idx \<Rightarrow> nat \<times> string \<Rightarrow> col_idx" where
  "header_step ix ic =
     (let i = fst ic; name = upper_str (trim (take 95 (snd ic))) in
      if strstr name ''CHIP_MODEL'' then ix\<lparr>idx_model := Some i\<rparr>
      else if strstr name ''COMPANY'' then ix\<lparr>idx_company := Some i\<rparr>
      else if strstr name ''CHIP_FAMILY'' then ix\<lparr>idx_family := Some i\<rparr>
      else if strstr name ''CAPACITY'' \<and> strstr name ''MBIT'' then ix\<lparr>idx_capacity := Some i\<rparr>
      else if strstr name ''JEDEC'' then ix\<lparr>idx_jedec := Some i\<rparr>
      else if strstr name ''TYP_PAGE_PROGRAM'' then ix\<lparr>idx_typprog := Some i\<rparr>
      else if strstr name ''TYP_4KB'' then ix\<lparr>idx_typ4k := Some i\<rparr>
      else if strstr name ''TYP_32KB'' then ix\<lparr>idx_typ32k := Some i\<rparr>
      else if strstr name ''TYP_64KB'' then ix\<lparr>idx_typ64k := Some i\<rparr>
      else if strstr name ''50MHZ_READ_SPEED'' \<or> strstr name ''50MHZ_READ'' \<or> strstr name ''READ50''
        then ix\<lparr>idx_read50 := Some i\<rparr>
      else ix)"

definition header_indices :: "string list \<Rightarrow> col_idx" where
  "header_indices cols = foldl header_step no_idx (enumerate 0 cols)"

text \<open>The field at a column index, when \<^verbatim>\<open>idx >= 0 && idx < c\<close>.\<close>

definition field_at :: "string list \<Rightarrow> nat option \<Rightarrow> string option" where
  "field_at f idx = (case idx of None \<Rightarrow> None | Some k \<Rightarrow> if k < length f then Some (f ! k) else None)"

definition parse_row :: "libc \<Rightarrow> col_idx \<Rightarrow> string list \<Rightarrow> db_row_t" where
  "parse_row L ix f =
     \<lparr>jedec_norm = (case field_at f (idx_jedec ix) of
                      None \<Rightarrow> [] | Some s \<Rightarrow> normalize_jedec (trim (take 31 s))),
      chip_model = (case field_at f (idx_model ix) of None \<Rightarrow> [] | Some s \<Rightarrow> trim (take 63 s)),
      company = (case field_at f (idx_company ix) of None \<Rightarrow> [] | Some s \<Rightarrow> trim (take 47 s)),
      family = (case field_at f (idx_family ix) of None \<Rightarrow> [] | Some s \<Rightarrow> trim (take 47 s)),
      capacity_mbit = (case field_at f (idx_capacity ix) of
                         None \<Rightarrow> - 1 | Some s \<Rightarrow> parse_int_or L s (- 1)),
      typ_4k_ms = (case field_at f (idx_typ4k ix) of
                     None \<Rightarrow> Fin (- 1) | Some s \<Rightarrow> parse_float_or L s (Fin (- 1))),
      typ_32k_ms = (case field_at f (idx_typ32k ix) of
                      None \<Rightarrow> Fin (- 1) | Some s \<Rightarrow> parse_float_or L s (Fin (- 1))),
      typ_64k_ms = (case field_at f (idx_typ64k ix) of
                      None \<Rightarrow> Fin (- 1) | Some s \<Rightarrow> parse_float_or L s (Fin (- 1))),
      typ_page_ms = (case field_at f (idx_typprog ix) of
                       None \<Rightarrow> Fin (- 1) | Some s \<Rightarrow> parse_float_or L s (Fin (- 1))),
      read50_MBps = (case field_at f (idx_read50 ix) of
                       None \<Rightarrow> Fin (- 1) | Some s \<Rightarrow> parse_float_or L s (Fin (- 1)))\<rparr>"

text \<open>The loop \<^verbatim>\<open>while (n < max_rows && fatfs_gets(...))\<close>; \<open>n\<close> counts the rows stored.\<close>

fun load_rows :: "libc \<Rightarrow> col_idx \<Rightarrow> nat \<Rightarrow> nat \<Rightarrow> string list \<Rightarrow> db_row_t list" where
  "load_rows L ix max_rows n [] = []"
| "load_rows L ix max_rows n (raw # rest) =
     (if \<not> n < max_rows then []
      else let buf = trim (fatfs_gets MAX_LINE raw) in
        if buf = [] then load_rows L ix max_rows n rest
        else let f = split_fields (take (MAX_LINE - 1) buf) 64 in
          if length f \<le> 1 then load_rows L ix max_rows n rest
          else parse_row L ix f # load_rows L ix max_rows (Suc n) rest)"

text \<open>\<open>db = None\<close> is a \<^verbatim>\<open>datasheet.csv\<close> that cannot be opened; an empty file has no
  header line.  Both give no rows.\<close>

definition load_database :: "libc \<Rightarrow> string list option \<Rightarrow> nat \<Rightarrow> db_row_t list" where
  "load_database L db max_rows =
     (case db of
        None \<Rightarrow> []
      | Some [] \<Rightarrow> []
      | Some (hdr # lines) \<Rightarrow>
          let buf = trim (fatfs_gets MAX_LINE hdr);
              cols = split_fields (take (MAX_LINE - 1) buf) 64
          in load_rows L (header_indices cols) max_rows 0 lines)"

section \<open>Cells and rows of the report\<close>

text \<open>A cell is a text, or a number together with the conversion that prints it:
  \<open>Fixed k v\<close> is \<^verbatim>\<open>"%.kf"\<close> of \<open>v\<close>, \<open>IntC i\<close> is \<^verbatim>\<open>"%d"\<close> or \<^verbatim>\<open>"%lu"\<close> of \<open>i\<close>.\<close>

datatype cell = Txt string | Fixed nat cfloat | IntC int

datatype line = Cols string cell cell cell | Raw string | Guess string string string cell

definition f3_or_na :: "cfloat \<Rightarrow> cell" where
  "f3_or_na v = (if is_nan v then Txt NA_STR else Fixed 3 v)"

definition f2_or_na :: "cfloat \<Rightarrow> cell" where
  "f2_or_na v = (if is_nan v then Txt NA_STR else Fixed 2 v)"

definition i_or_na :: "int \<Rightarrow> cell" where
  "i_or_na v = (if v \<le> 0 then Txt NA_STR else IntC v)"

definition f_auto_std_or_na :: "cfloat \<Rightarrow> cell" where
  "f_auto_std_or_na v =
     (if is_nan v then Txt NA_STR
      else if fgt (fabsf v) (Fin 0) \<and> flt (fabsf v) (Fin (f32 (1 / 1000))) then Fixed 6 v
      else Fixed 3 v)"

definition write_three_cols :: "string \<Rightarrow> cell \<Rightarrow> cell \<Rightarrow> cell \<Rightarrow> line" where
  "write_three_cols title R W E = Cols title R W E"

definition write_three_cols_i :: "string \<Rightarrow> int \<Rightarrow> int \<Rightarrow> int \<Rightarrow> line" where
  "write_three_cols_i title Ri Wi Ei = write_three_cols title (i_or_na Ri) (i_or_na Wi) (i_or_na Ei)"

definition write_three_cols_f_std :: "string \<Rightarrow> cfloat \<Rightarrow> cfloat \<Rightarrow> cfloat \<Rightarrow> line" where
  "write_three_cols_f_std title R W E =
     write_three_cols title (f_auto_std_or_na R) (f_auto_std_or_na W) (f_auto_std_or_na E)"

definition write_three_cols_f :: "string \<Rightarrow> cfloat \<Rightarrow> cfloat \<Rightarrow> cfloat \<Rightarrow> line" where
  "write_three_cols_f title R W E = write_three_cols title (f3_or_na R) (f3_or_na W) (f3_or_na E)"

text \<open>\<^verbatim>\<open>(capacity_mbit / 8.0f) * 1024.0f * 1024.0f\<close>, converted to an unsigned integer.\<close>

definition capacity_bytes_of :: "int \<Rightarrow> 32 word" where
  "capacity_bytes_of mbit =
     u32_of_float (fmul (fmul (fdiv (float_of_int mbit) (Fin 8)) (Fin 1024)) (Fin 1024))"

record identity =
  f_detected_jedec :: cell
  f_model :: cell
  f_family :: cell
  f_company :: cell
  f_capacity_mbit :: cell
  f_capacity_bytes :: cell

definition or_na :: "string \<Rightarrow> string" where
  "or_na s = (if s \<noteq> [] then s else NA_STR)"

definition fill_identity_fields :: "db_row_t option \<Rightarrow> string \<Rightarrow> identity" where
  "fill_identity_fields match_row jedec =
     (let det = (if jedec \<noteq> [] then Txt jedec else Txt NA_STR) in
      case match_row of
        None \<Rightarrow>
          \<lparr>f_detected_jedec = det, f_model = Txt NA_STR, f_family = Txt NA_STR,
           f_company = Txt NA_STR, f_capacity_mbit = Txt NA_STR, f_capacity_bytes = Txt NA_STR\<rparr>
      | Some r \<Rightarrow>
          if jedec_norm r \<noteq> [] then
            \<lparr>f_detected_jedec = det,
             f_model = Txt (or_na (chip_model r)),
             f_family = Txt (or_na (family r)),
             f_company = Txt (or_na (company r)),
             f_capacity_mbit = (if 0 < capacity_mbit r then IntC (capacity_mbit r) else Txt NA_STR),
             f_capacity_bytes = (if 0 < capacity_mbit r
                                 then IntC (uint (capacity_bytes_of (capacity_mbit r)))
                                 else Txt NA_STR)\<rparr>
          else
            \<lparr>f_detected_jedec = det, f_model = Txt NA_STR, f_family = Txt NA_STR,
             f_company = Txt NA_STR, f_capacity_mbit = Txt NA_STR, f_capacity_bytes = Txt NA_STR\<rparr>)"

section \<open>Closest datasheet predictions\<close>

definition float_almost_equal :: "cfloat \<Rightarrow> cfloat \<Rightarrow> bool" where
  "float_almost_equal a b =
     (if is_nan a \<or> is_nan b then False
      else let diff = fabsf (fsub a b) in
        if flt diff (Fin (f32 (1 / 10000))) then True
        else let aa = fabsf a; bb = fabsf b; maxab = (if fgt aa bb then aa else bb) in
          if flt maxab (Fin (f32 (1 / 1000000))) then flt diff (Fin (f32 (1 / 1000000)))
          else flt (fdiv diff maxab) (Fin (f32 (1 / 1000))))"

text \<open>The prediction of a catalogue row for one cell, \<open>None\<close> when the row does not carry
  the datasheet field (the \<^verbatim>\<open>if (field > 0)\<close> around the body of each matching loop).\<close>

definition read_pred :: "agg_t \<Rightarrow> db_row_t \<Rightarrow> cfloat option" where
  "read_pred A r =
     (if fgt (read50_MBps r) (Fin 0)
      then Some (fmul (read50_MBps r) (fdiv (sck_MHz A) (Fin 50))) else None)"

text \<open>\<open>pages\<close> of a group, \<open>None\<close> where the write loops \<^verbatim>\<open>continue\<close>.\<close>

definition write_pages :: "group_t \<Rightarrow> 32 word \<Rightarrow> 32 word option" where
  "write_pages g capacity_bytes =
     (let bytes = (if g = G_WHOLE then capacity_bytes else GROUP_BYTES g) in
      if g = G_WHOLE \<and> bytes = 0 then None
      else let pages = (bytes + PAGE_SIZE_BYTES - 1) div PAGE_SIZE_BYTES in
        if pages = 0 then None else Some pages)"

definition write_pred :: "32 word \<Rightarrow> db_row_t \<Rightarrow> cfloat option" where
  "write_pred pages r =
     (if fgt (typ_page_ms r) (Fin 0)
      then Some (fmul (typ_page_ms r) (float_of_u32 pages)) else None)"

fun erase_ref :: "group_t \<Rightarrow> db_row_t \<Rightarrow> cfloat" where
  "erase_ref G_4K r = typ_4k_ms r"
| "erase_ref G_32K r = typ_32k_ms r"
| "erase_ref G_64K r = typ_64k_ms r"
| "erase_ref _ r = NaN"

definition erase_pred :: "group_t \<Rightarrow> db_row_t \<Rightarrow> cfloat option" where
  "erase_pred g r = (if fgt (erase_ref g r) (Fin 0) then Some (erase_ref g r) else None)"

text \<open>The three matching loops of \<^verbatim>\<open>compute_db_means_closest\<close> are one loop over the
  rows, with the state \<open>(best_d, best_pred, best_i)\<close>; the write and erase loops do not
  keep \<open>best_i\<close>.  \<open>i\<close> is the index of the first row of the list.\<close>

fun closest_loop :: "(db_row_t \<Rightarrow> cfloat option) \<Rightarrow> cfloat \<Rightarrow> db_row_t list \<Rightarrow> int
    \<Rightarrow> cfloat \<times> cfloat \<times> int \<Rightarrow> cfloat \<times> cfloat \<times> int" where
  "closest_loop pr mean [] i best = best"
| "closest_loop pr mean (r # rs) i (best_d, best_pred, best_i) =
     (case pr r of
        None \<Rightarrow> closest_loop pr mean rs (i + 1) (best_d, best_pred, best_i)
      | Some pred \<Rightarrow>
          let d = fabsf (fsub pred mean) in
          if flt d best_d then closest_loop pr mean rs (i + 1) (d, pred, i)
          else closest_loop pr mean rs (i + 1) (best_d, best_pred, best_i))"

definition closest_init :: "cfloat \<times> cfloat \<times> int" where
  "closest_init = (Fin 1000000000, NaN, - 1)"

record db_means =
  db_read :: "group_t \<Rightarrow> cfloat"
  db_write :: "group_t \<Rightarrow> cfloat"
  db_erase :: "group_t \<Rightarrow> cfloat"
  read_winner_idx_by_group :: "group_t \<Rightarrow> int"

text \<open>The by-product \<^verbatim>\<open>*out_read_winner_idx\<close> (with \<^verbatim>\<open>diff_sum\<close>, \<^verbatim>\<open>diff_cnt\<close>) lands in a
  local of \<^verbatim>\<open>write_report_csv\<close> that is never read, and is left out.\<close>

definition compute_db_means_closest :: "db_row_t list \<Rightarrow> agg_t \<Rightarrow> 32 word \<Rightarrow> db_means" where
  "compute_db_means_closest rows A capacity_bytes =
     (let rd = (\<lambda>g. if fgt (sck_MHz A) (Fin 0) \<and> 0 < s_n (read_s A g)
                     then closest_loop (read_pred A) (s_mean (read_s A g)) rows 0 closest_init
                     else closest_init)
      in
      \<lparr>db_read = (\<lambda>g. case rd g of (best_d, best_pred, best_i) \<Rightarrow>
                    if 0 \<le> best_i then best_pred else NaN),
       db_write = (\<lambda>g.
          if \<not> 0 < s_n (write_s A g) then NaN
          else case write_pages g capacity_bytes of
                 None \<Rightarrow> NaN
               | Some pages \<Rightarrow>
                   (case closest_loop (write_pred pages) (s_mean (write_s A g)) rows 0 closest_init of
                      (best_d, best_pred, best_i) \<Rightarrow>
                        if flt best_d (Fin 1000000000) then best_pred else NaN)),
       db_erase = (\<lambda>g.
          if \<not> 0 < s_n (erase_s A g) then NaN
          else case closest_loop (erase_pred g) (s_mean (erase_s A g)) rows 0 closest_init of
                 (best_d, best_ref, best_i) \<Rightarrow>
                   if flt best_d (Fin 1000000000) then best_ref else NaN),
       read_winner_idx_by_group = (\<lambda>g. case rd g of (best_d, best_pred, best_i) \<Rightarrow> best_i)\<rparr>)"

section \<open>Candidate lists\<close>

definition strncat :: "string \<Rightarrow> string \<Rightarrow> nat \<Rightarrow> string" where
  "strncat dst src k = dst @ take k src"

text \<open>\<open>n\<close> is the size of the buffer that holds \<open>dst\<close>, so \<open>length dst \<le> n - 1\<close>.\<close>

definition append_token :: "string \<Rightarrow> nat \<Rightarrow> string \<Rightarrow> string" where
  "append_token dst n tok =
     (if tok = [] \<or> n = 0 then dst
      else let cur_len = length dst in
        if cur_len = 0 then strncat dst tok (n - 1)
        else let dst1 = (if cur_len + 1 < n - 1 then strncat dst ''/'' (n - 1 - cur_len) else dst)
             in strncat dst1 tok (n - 1 - length dst1))"

definition na_if_empty :: "string \<Rightarrow> string" where
  "na_if_empty s = (if s = [] then take 255 NA_STR else s)"

text \<open>One candidate loop: the rows that pass the test are appended in catalogue order.\<close>

definition candidates :: "(db_row_t \<Rightarrow> bool) \<Rightarrow> db_row_t list \<Rightarrow> string" where
  "candidates ok rows = foldl (\<lambda>dst r. if ok r then append_token dst 256 (jedec_norm r) else dst) [] rows"

record possible =
  poss_read :: "group_t \<Rightarrow> string"
  poss_write :: "group_t \<Rightarrow> string"
  poss_erase :: "group_t \<Rightarrow> string"

definition build_possible_chips_for_all_groups ::
    "db_row_t list \<Rightarrow> agg_t \<Rightarrow> 32 word \<Rightarrow> db_means \<Rightarrow> possible" where
  "build_possible_chips_for_all_groups rows A capacity_bytes M =
     \<lparr>poss_read = (\<lambda>g. na_if_empty
        (if \<not> is_nan (db_read M g) \<and> fgt (sck_MHz A) (Fin 0) then
           candidates (\<lambda>r. fgt (read50_MBps r) (Fin 0) \<and> jedec_norm r \<noteq> [] \<and>
              float_almost_equal (fmul (read50_MBps r) (fdiv (sck_MHz A) (Fin 50))) (db_read M g)) rows
         else [])),
      poss_write = (\<lambda>g. na_if_empty
        (if \<not> is_nan (db_write M g) then
           (let bytes = (if g = G_WHOLE then capacity_bytes else GROUP_BYTES g) in
            if \<not> (g = G_WHOLE \<and> bytes = 0) \<and> bytes \<noteq> 0 then
              (let pages = (bytes + PAGE_SIZE_BYTES - 1) div PAGE_SIZE_BYTES in
               if pages \<noteq> 0 then
                 candidates (\<lambda>r. fgt (typ_page_ms r) (Fin 0) \<and> jedec_norm r \<noteq> [] \<and>
                    float_almost_equal (fmul (typ_page_ms r) (float_of_u32 pages)) (db_write M g)) rows
               else [])
            else [])
         else [])),
      poss_erase = (\<lambda>g. na_if_empty
        (if \<not> is_nan (db_erase M g) then
           candidates (\<lambda>r. jedec_norm r \<noteq> [] \<and> fgt (erase_ref g r) (Fin 0) \<and>
              float_almost_equal (erase_ref g r) (db_erase M g)) rows
         else []))\<rparr>"

section \<open>Intersection across groups\<close>

definition has_candidates :: "string \<Rightarrow> bool" where
  "has_candidates p = (p \<noteq> [] \<and> p \<noteq> NA_STR)"

text \<open>The body of the \<^verbatim>\<open>while (tok)\<close> loop, for one token of the seed list.\<close>

definition conclude_step :: "(group_t \<Rightarrow> string) \<Rightarrow> group_t \<Rightarrow> nat \<Rightarrow> string \<Rightarrow> string \<Rightarrow> string" where
  "conclude_step poss first_group cap out tok0 =
     (let tok = dropWhile (\<lambda>c. c = CHR '' '') tok0 in
      if tok = [] then out
      else if list_all (\<lambda>g. g = first_group \<or> \<not> has_candidates (poss g) \<or> strstr (poss g) tok) groups
        then append_token out cap tok
      else out)"

definition conclude_possible_chips_across_groups :: "(group_t \<Rightarrow> string) \<Rightarrow> nat \<Rightarrow> string" where
  "conclude_possible_chips_across_groups poss cap =
     (case find (\<lambda>g. has_candidates (poss g)) groups of
        None \<Rightarrow> take (cap - 1) NA_STR
      | Some first_group \<Rightarrow>
          let base = take 255 (poss first_group);
              out = foldl (conclude_step poss first_group cap) [] (strtok_all (CHR ''/'') base)
          in if out = [] then take (cap - 1) NA_STR else out)"

section \<open>Final guess scoring\<close>

definition norm_diff :: "cfloat \<Rightarrow> cfloat \<Rightarrow> cfloat" where
  "norm_diff meas ref =
     (if \<not> fgt meas (Fin 0) \<or> \<not> fgt ref (Fin 0) then Fin 3
      else let d = fdiv (fabsf (fsub meas ref)) ref in
        if fgt d (Fin 3) then Fin 3 else d)"

text \<open>The score and the number of metrics of one catalogue row: three loops over the
  groups, each adding to \<open>(score, used)\<close>.\<close>

definition score_read :: "agg_t \<Rightarrow> db_row_t \<Rightarrow> cfloat \<times> int \<Rightarrow> cfloat \<times> int" where
  "score_read A r su =
     (if fgt (read50_MBps r) (Fin 0) \<and> fgt (sck_MHz A) (Fin 0) then
        foldl (\<lambda>(score, used) g.
                 if 0 < s_n (read_s A g)
                 then (fadd score (norm_diff (s_mean (read_s A g))
                                     (fmul (read50_MBps r) (fdiv (sck_MHz A) (Fin 50)))), used + 1)
                 else (score, used)) su groups
      else su)"

definition score_write :: "agg_t \<Rightarrow> 32 word \<Rightarrow> db_row_t \<Rightarrow> cfloat \<times> int \<Rightarrow> cfloat \<times> int" where
  "score_write A capacity_bytes r su =
     (if fgt (typ_page_ms r) (Fin 0) then
        foldl (\<lambda>(score, used) g.
                 if 0 < s_n (write_s A g) then
                   (case write_pages g capacity_bytes of
                      None \<Rightarrow> (score, used)
                    | Some pages \<Rightarrow>
                        (fadd score (norm_diff (s_mean (write_s A g))
                                       (fmul (typ_page_ms r) (float_of_u32 pages))), used + 1))
                 else (score, used)) su groups
      else su)"

definition score_erase :: "agg_t \<Rightarrow> db_row_t \<Rightarrow> cfloat \<times> int \<Rightarrow> cfloat \<times> int" where
  "score_erase A r su =
     foldl (\<lambda>(score, used) g.
              if s_n (erase_s A g) \<le> 0 then (score, used)
              else if fgt (erase_ref g r) (Fin 0)
                then (fadd score (norm_diff (s_mean (erase_s A g)) (erase_ref g r)), used + 1)
              else (score, used)) su groups"

fun pick_loop :: "agg_t \<Rightarrow> string \<Rightarrow> 32 word \<Rightarrow> db_row_t list \<Rightarrow> int
    \<Rightarrow> int \<times> cfloat \<times> int \<Rightarrow> int \<times> cfloat \<times> int" where
  "pick_loop A jedec capacity_bytes [] i best = best"
| "pick_loop A jedec capacity_bytes (r # rs) i (best, best_score, best_used) =
     (case score_erase A r (score_write A capacity_bytes r (score_read A r (Fin 0, 0))) of
        (score0, used) \<Rightarrow>
          if used = 0 then pick_loop A jedec capacity_bytes rs (i + 1) (best, best_score, best_used)
          else
            let score = (if jedec \<noteq> [] \<and> jedec_norm r \<noteq> [] \<and> jedec = jedec_norm r
                         then fmul score0 (Fin (1 / 4)) else score0)
            in if flt score best_score
               then pick_loop A jedec capacity_bytes rs (i + 1) (i, score, used)
               else pick_loop A jedec capacity_bytes rs (i + 1) (best, best_score, best_used))"

text \<open>Returns \<open>(best, *out_score, *used_metrics_out)\<close>.\<close>

definition pick_best_candidate :: "db_row_t list \<Rightarrow> agg_t \<Rightarrow> string \<Rightarrow> 32 word \<Rightarrow> int \<times> cfloat \<times> int" where
  "pick_best_candidate rows A jedec capacity_bytes =
     (case pick_loop A jedec capacity_bytes rows 0 (- 1, Fin 1000000000, 0) of
        (best, best_score, best_used) \<Rightarrow>
          (best, (if 0 \<le> best then best_score else NaN), best_used))"

section \<open>The report writer\<close>

text \<open>The stats pointers handed to \<^verbatim>\<open>write_summary_ms_for_group\<close> are addresses of array
  elements, never NULL.\<close>

definition write_summary_ms_for_group :: "string \<Rightarrow> stats_t \<Rightarrow> stats_t \<Rightarrow> stats_t \<Rightarrow> line list" where
  "write_summary_ms_for_group suffix Sr Sw Se =
     [write_three_cols_i (''n_'' @ suffix) (s_n Sr) (s_n Sw) (s_n Se),
      write_three_cols_f_std (''avg_'' @ suffix @ ''_ms'') (s_mean Sr) (s_mean Sw) (s_mean Se),
      write_three_cols_f_std (''p25_'' @ suffix @ ''_ms'') (s_p25 Sr) (s_p25 Sw) (s_p25 Se),
      write_three_cols_f_std (''p50_'' @ suffix @ ''_ms'') (s_p50 Sr) (s_p50 Sw) (s_p50 Se),
      write_three_cols_f_std (''p75_'' @ suffix @ ''_ms'') (s_p75 Sr) (s_p75 Sw) (s_p75 Se),
      write_three_cols_f_std (''min_'' @ suffix @ ''_ms'') (s_minv Sr) (s_minv Sw) (s_minv Se),
      write_three_cols_f_std (''max_'' @ suffix @ ''_ms'') (s_maxv Sr) (s_maxv Sw) (s_maxv Se),
      write_three_cols_f_std (''stddev_'' @ suffix @ ''_ms'') (s_stddev Sr) (s_stddev Sw) (s_stddev Se)]"

text \<open>The block \<open>(final_j, final_m, final_c, fscore)\<close> computed before the file is opened.\<close>

definition final_guess :: "db_row_t list \<Rightarrow> agg_t \<Rightarrow> db_row_t option \<Rightarrow> string \<Rightarrow> 32 word
    \<Rightarrow> string \<times> string \<times> string \<times> cell" where
  "final_guess rows A match_row jedec capacity_bytes =
     (case pick_best_candidate rows A jedec capacity_bytes of
        (best, final_score, used_metrics) \<Rightarrow>
          let any_meas = list_ex (\<lambda>g. 0 < s_n (read_s A g) \<or> 0 < s_n (write_s A g)
                                       \<or> 0 < s_n (erase_s A g)) groups;
              fscore = f3_or_na final_score
          in
          if \<not> any_meas then
            (if jedec \<noteq> [] then
               (case match_row of
                  Some r \<Rightarrow> (jedec, or_na (chip_model r), or_na (company r), Txt ''0.000'')
                | None \<Rightarrow> (jedec, NA_STR, NA_STR, Txt ''0.000''))
             else (''undecided'', ''undecided'', ''undecided'', Txt NA_STR))
          else
            (if 0 \<le> best then
               (or_na (jedec_norm (rows ! nat best)), or_na (chip_model (rows ! nat best)),
                or_na (company (rows ! nat best)), f3_or_na final_score)
             else if jedec \<noteq> [] then
               (case match_row of
                  Some r \<Rightarrow> (jedec, or_na (chip_model r), or_na (company r), fscore)
                | None \<Rightarrow> (jedec, NA_STR, NA_STR, fscore))
             else (''undecided'', ''undecided'', ''undecided'', fscore)))"

definition notes_row :: line where
  "notes_row = write_three_cols ''notes''
     (Txt ''read: MB/s; db_mean_* = closest READ@SCK to measured mean per size; NA if no read data'')
     (Txt ''write: ms/op; db_mean_* = typ_page_ms * ceil(bytes/256) closest to measured mean; NA if no write data'')
     (Txt ''erase: ms/op; db_mean_* = typ_4K/32K/64K closest to measured mean; NA if no erase data'')"

text \<open>\<open>Cols\<close> is a row \<^verbatim>\<open>title,read,write,erase\<close>, \<open>Raw\<close> a line written as it is, and
  \<open>Guess\<close> the value row under the second header.  \<open>rf_ok\<close> tells whether \<^verbatim>\<open>report.csv\<close>
  could be opened for writing; if not, nothing is written.  The result is the list of
  lines written.\<close>

definition write_report_csv :: "db_row_t list \<Rightarrow> agg_t \<Rightarrow> db_row_t option \<Rightarrow> string \<Rightarrow> 32 word
    \<Rightarrow> bool \<Rightarrow> line list option" where
  "write_report_csv rows A match_row jedec capacity_bytes rf_ok =
     (let idn = fill_identity_fields match_row jedec;
          M = compute_db_means_closest rows A capacity_bytes;
          P = build_possible_chips_for_all_groups rows A capacity_bytes M;
          fg = final_guess rows A match_row jedec capacity_bytes;
          sck = f2_or_na (if fgt (sck_MHz A) (Fin 0) then sck_MHz A else NaN)
      in
      if \<not> rf_ok then None
      else Some
        ([Raw ''title,read,write,erase'',
          write_three_cols ''detected_jedec'' (f_detected_jedec idn) (f_detected_jedec idn) (f_detected_jedec idn),
          write_three_cols ''chip_model'' (f_model idn) (f_model idn) (f_model idn),
          write_three_cols ''chip_family'' (f_family idn) (f_family idn) (f_family idn),
          write_three_cols ''company'' (f_company idn) (f_company idn) (f_company idn),
          write_three_cols ''capacity_mbit'' (f_capacity_mbit idn) (f_capacity_mbit idn) (f_capacity_mbit idn),
          write_three_cols ''capacity_bytes'' (f_capacity_bytes idn) (f_capacity_bytes idn) (f_capacity_bytes idn),
          write_three_cols ''spi_sck_MHz'' sck sck sck,
          write_three_cols ''units_summary'' (Txt ''ms'') (Txt ''ms'') (Txt ''ms'')]
         @ concat (map (\<lambda>g. write_summary_ms_for_group (group_suffix g)
                               (read_lat_ms A g) (write_s A g) (erase_s A g)) groups)
         @ map (\<lambda>g. write_three_cols_f (''db_mean_'' @ group_suffix g)
                       (db_read M g) (db_write M g) (db_erase M g)) groups
         @ map (\<lambda>g. write_three_cols (''possible_chips_'' @ group_suffix g)
                       (Txt (poss_read P g)) (Txt (poss_write P g)) (Txt (poss_erase P g))) groups
         @ [write_three_cols ''conclusion_possible_chips''
              (Txt (conclude_possible_chips_across_groups (poss_read P) 1024))
              (Txt (conclude_possible_chips_across_groups (poss_write P) 1024))
              (Txt (conclude_possible_chips_across_groups (poss_erase P) 1024)),
            notes_row,
            Raw [],
            Raw ''final_guess_jedec,final_guess_model,final_guess_company,final_score'',
            (case fg of (final_j, final_m, final_c, fscore) \<Rightarrow>
               Guess final_j final_m final_c fscore)]))"

section \<open>The public entry point\<close>

text \<open>The inputs of \<^verbatim>\<open>report_generate_csv\<close>: the two files, the JEDEC text and the SPI
  clock reported by the flash driver, and whether the report file can be created.\<close>

definition find_match_row :: "db_row_t list \<Rightarrow> string \<Rightarrow> db_row_t option" where
  "find_match_row rows jedec_norm6 =
     (if jedec_norm6 \<noteq> [] \<and> rows \<noteq> []
      then find (\<lambda>r. jedec_norm r \<noteq> [] \<and> jedec_norm r = jedec_norm6) rows
      else None)"

definition report_generate_csv :: "libc \<Rightarrow> string list option \<Rightarrow> string \<Rightarrow> 32 word
    \<Rightarrow> string list option \<Rightarrow> bool \<Rightarrow> line list option" where
  "report_generate_csv L db jedec_text baud_hz results rf_ok =
     (let rows = load_database L db MAX_DB_ROWS;
          jedec_norm6 = normalize_jedec (take 23 jedec_text);
          match_row = find_match_row rows jedec_norm6;
          capacity_bytes = (case match_row of
                              None \<Rightarrow> 0
                            | Some r \<Rightarrow> if 0 < capacity_mbit r
                                        then capacity_bytes_of (capacity_mbit r) else 0);
          A = collect_aggregates L baud_hz results capacity_bytes
      in write_report_csv rows A match_row jedec_norm6 capacity_bytes rf_ok)"

section \<open>A C library for plain decimal text\<close>

text \<open>
  The concrete runs below need a C library.  \<open>libc_plain\<close> converts what \<^verbatim>\<open>strtol\<close> and
  \<^verbatim>\<open>strtof\<close> convert of a text that starts with decimal digits (with an optional fraction
  for \<^verbatim>\<open>strtof\<close>), and takes correctly rounded square roots.  Every text converted in
  the concrete runs has that form.
\<close>

definition digit_of :: "char \<Rightarrow> int option" where
  "digit_of c = map_of (zip ''0123456789'' [0, 1, 2, 3, 4, 5, 6, 7, 8, 9]) c"

definition digits_val :: "string \<Rightarrow> int" where
  "digits_val ds = foldl (\<lambda>a c. 10 * a + the (digit_of c)) 0 ds"

definition strtol_plain :: "string \<Rightarrow> int option" where
  "strtol_plain s =
     (let ds = takeWhile (\<lambda>c. digit_of c \<noteq> None) s in
      if ds = [] then None else Some (min (digits_val ds) 2147483647))"

definition strtof_plain :: "string \<Rightarrow> cfloat option" where
  "strtof_plain s =
     (let ip = takeWhile (\<lambda>c. digit_of c \<noteq> None) s;
          rest = dropWhile (\<lambda>c. digit_of c \<noteq> None) s;
          fp = (case rest of c # cs \<Rightarrow> if c = CHR ''.'' then takeWhile (\<lambda>c. digit_of c \<noteq> None) cs else []
                | [] \<Rightarrow> [])
      in if ip = [] \<and> fp = [] then None
         else Some (Fin (f32 (of_int (digits_val ip) + of_int (digits_val fp) / 10 ^ length fp))))"

function isqrt :: "int \<Rightarrow> int" where
  "isqrt n = (if n < 1 then 0
              else let r = 2 * isqrt (n div 4) in if (r + 1) * (r + 1) \<le> n then r + 1 else r)"
  by pat_completeness auto
termination
  by (relation "measure nat") auto

declare isqrt.simps [simp del]

definition sqrtf_plain :: "rat \<Rightarrow> rat" where
  "sqrtf_plain x =
     (if x \<le> 0 then 0
      else let k = 26 + ilog2 (snd (quotient_of x));
               sc = x * pow2 (2 * k);
               s = isqrt \<lfloor>sc\<rfloor>;
               sticky = (if of_int (s * s) = sc then 0 else 1 / 2)
           in f32 ((of_int s + sticky) / pow2 k))"

definition libc_plain :: libc where
  "libc_plain = \<lparr>strtol = strtol_plain, strtof = strtof_plain, sqrtf = sqrtf_plain\<rparr>"

section \<open>Concrete inputs\<close>

text \<open>A one-row catalogue and a short results log, used by the concrete runs.\<close>

definition ex_db :: "string list" where
  "ex_db = [''CHIP_MODEL,COMPANY,JEDEC,TYP_4KB,TYP_PAGE_PROGRAM,READ50'',
            ''X,ACME,BF2641,45,0.7,5.0'']"

definition ex_results :: "string list" where
  "ex_results = [''BF2641,read,4096,0x0,800,4.8'',
                 ''BF2641,program,4096,0x0,12000,0'',
                 ''BF2641,erase,4096,0x0,46000,0'']"

section \<open>The formats of the numeric cells\<close>







section \<open>What a closest prediction is\<close>

text \<open>The distance of a prediction to the mean of a bucket, as the matching loops compute
  it.  A row is \<open>in_reach\<close> when it carries the datasheet field and its prediction is less
  than \<open>1e9\<close> away from the mean, the initial \<open>best_d\<close> of the loops.  \<open>closest_pick\<close>
  says that row \<open>k\<close> predicts \<open>v\<close>, that no row is strictly closer to the mean, and that no
  earlier row is as close.\<close>

fun fle :: "cfloat \<Rightarrow> cfloat \<Rightarrow> bool" where
  "fle (Fin a) (Fin b) = (a \<le> b)"
| "fle _ _ = False"

definition distance :: "cfloat \<Rightarrow> cfloat \<Rightarrow> cfloat" where
  "distance p mean = fabsf (fsub p mean)"

definition in_reach :: "(db_row_t \<Rightarrow> cfloat option) \<Rightarrow> cfloat \<Rightarrow> db_row_t \<Rightarrow> bool" where
  "in_reach pr mean r = (case pr r of None \<Rightarrow> False | Some p \<Rightarrow> flt (distance p mean) (Fin 1000000000))"

definition closest_pick :: "(db_row_t \<Rightarrow> cfloat option) \<Rightarrow> cfloat \<Rightarrow> db_row_t list \<Rightarrow> nat \<Rightarrow> cfloat \<Rightarrow> bool" where
  "closest_pick pr mean rows k v =
     (k < length rows \<and> pr (rows ! k) = Some v \<and> \<not> is_nan v \<and>
      (\<forall>j < length rows. \<forall>q. pr (rows ! j) = Some q \<longrightarrow> \<not> flt (distance q mean) (distance v mean)) \<and>
      (\<forall>j < k. \<forall>q. pr (rows ! j) = Some q \<longrightarrow> \<not> fle (distance q mean) (distance v mean)))"

text \<open>The invariant of the matching loop after the rows \<open>pre\<close>.\<close>

definition loop_inv :: "(db_row_t \<Rightarrow> cfloat option) \<Rightarrow> cfloat \<Rightarrow> db_row_t list \<Rightarrow> cfloat \<times> cfloat \<times> int \<Rightarrow> bool" where
  "loop_inv pr mean pre st =
     (case st of (bd, bp, bi) \<Rightarrow>
        (bi = - 1 \<and> bd = Fin 1000000000 \<and> bp = NaN \<and> (\<forall>r \<in> set pre. \<not> in_reach pr mean r)) \<or>
        (0 \<le> bi \<and> bd = distance bp mean \<and> flt bd (Fin 1000000000) \<and>
         closest_pick pr mean pre (nat bi) bp))"


text \<open>A catalogue whose only 4 KB erase time is far from anything measured.\<close>

definition far_db :: "string list" where
  "far_db = [''JEDEC,TYP_4KB'', ''EF4016,2000000000'']"

definition far_results :: "string list" where
  "far_results = [''EF4016,erase,4096,0x0,1000,0'']"

definition far_row :: db_row_t where
  "far_row = \<lparr>jedec_norm = ''EF4016'', chip_model = [], company = [], family = [],
               capacity_mbit = - 1, typ_4k_ms = Fin 2000000000, typ_32k_ms = Fin (- 1),
               typ_64k_ms = Fin (- 1), typ_page_ms = Fin (- 1), read50_MBps = Fin (- 1)\<rparr>"

definition ex_row :: db_row_t where
  "ex_row = \<lparr>jedec_norm = ''BF2641'', chip_model = ''X'', company = ''ACME'', family = [],
              capacity_mbit = - 1, typ_4k_ms = Fin 45, typ_32k_ms = Fin (- 1),
              typ_64k_ms = Fin (- 1), typ_page_ms = Fin (11744051 / 16777216),
              read50_MBps = Fin 5\<rparr>"

section \<open>Parseable catalogue lines\<close>

text \<open>The fields the loader splits a catalogue line into, and the lines it keeps: those
  with at least two fields.\<close>

definition db_fields :: "string \<Rightarrow> string list" where
  "db_fields raw = split_fields (take (MAX_LINE - 1) (trim (fatfs_gets MAX_LINE raw))) 64"

definition parseable :: "string \<Rightarrow> bool" where
  "parseable raw = (1 < length (db_fields raw))"


section \<open>Order statistics of a bucket\<close>

text \<open>The statistics of a bucket that do not involve a running sum, and two results logs
  with the same three lines in different orders.\<close>

definition order_stats :: "stats_t \<Rightarrow> int \<times> cfloat \<times> cfloat \<times> cfloat \<times> cfloat \<times> cfloat" where
  "order_stats S = (s_n S, s_p25 S, s_p50 S, s_p75 S, s_minv S, s_maxv S)"

definition big_first :: "string list" where
  "big_first = [''X,erase,4096,0x0,16777216000,0'', ''X,erase,4096,0x0,1000,0'',
                ''X,erase,4096,0x0,1000,0'']"

definition big_last :: "string list" where
  "big_last = [''X,erase,4096,0x0,1000,0'', ''X,erase,4096,0x0,1000,0'',
               ''X,erase,4096,0x0,16777216000,0'']"


section \<open>Fields and tokens of a results line\<close>




section \<open>What a candidate list is\<close>







section \<open>Size classification\<close>

lemma collect_line_other_group:
  assumes "\<And>b. classify_group b cap \<noteq> Some g"
  shows "read_v (collect_line L cap V raw) g = read_v V g"
    and "write_v (collect_line L cap V raw) g = write_v V g"
    and "erase_v (collect_line L cap V raw) g = erase_v V g"
    and "read_us (collect_line L cap V raw) g = read_us V g"
    and "read_lat_ms_v (collect_line L cap V raw) g = read_lat_ms_v V g"
  using assms
  by (auto simp: collect_line_def line_sample_def push_sample_def Let_def vec_push_def
      split: option.splits if_splits)

lemma collect_vecs_other_group:
  assumes "\<And>b. classify_group b cap \<noteq> Some g"
  shows "read_v (foldl (collect_line L cap) V lines) g = read_v V g
       \<and> write_v (foldl (collect_line L cap) V lines) g = write_v V g
       \<and> erase_v (foldl (collect_line L cap) V lines) g = erase_v V g
       \<and> read_us (foldl (collect_line L cap) V lines) g = read_us V g
       \<and> read_lat_ms_v (foldl (collect_line L cap) V lines) g = read_lat_ms_v V g"
proof (induction lines arbitrary: V)
  case Nil
  show ?case by simp
next
  case (Cons l ls)
  show ?case
    using Cons.IH [of "collect_line L cap V l"] collect_line_other_group [OF assms, of L V l]
    by simp
qed

text \<open>
  Claim C10.  \<^verbatim>\<open>classify_group\<close> tests the five fixed widths before the capacity: a size
  of 1, 256, 4096, 32768 or 65536 bytes is classified into its fixed group whatever the
  capacity is, and when the capacity is itself one of the five widths no size is classified
  as WHOLE, so that every WHOLE bucket of the aggregate stays empty.
\<close>

theorem fixed_widths_before_whole:
  "(g \<noteq> G_WHOLE \<longrightarrow> classify_group (GROUP_BYTES g) cap = Some g) \<and>
   (cap \<in> {1, 256, 4096, 32768, 65536} \<longrightarrow>
      classify_group bytes cap \<noteq> Some G_WHOLE \<and>
      s_n (read_s (collect_aggregates L hz (Some lines) cap) G_WHOLE) = 0 \<and>
      s_n (write_s (collect_aggregates L hz (Some lines) cap) G_WHOLE) = 0 \<and>
      s_n (erase_s (collect_aggregates L hz (Some lines) cap) G_WHOLE) = 0 \<and>
      s_n (read_lat_ms (collect_aggregates L hz (Some lines) cap) G_WHOLE) = 0)"
proof (intro conjI impI)
  assume "g \<noteq> G_WHOLE"
  then show "classify_group (GROUP_BYTES g) cap = Some g"
    by (cases g) (simp_all add: classify_group_def)
next
  assume cap: "cap \<in> {1, 256, 4096, 32768, 65536}"
  have never: "classify_group b cap \<noteq> Some G_WHOLE" for b
    using cap by (auto simp: classify_group_def)
  show "classify_group bytes cap \<noteq> Some G_WHOLE"
    by (rule never)
  have empty: "read_v (collect_vecs L cap lines) G_WHOLE = []"
    "write_v (collect_vecs L cap lines) G_WHOLE = []"
    "erase_v (collect_vecs L cap lines) G_WHOLE = []"
    "read_lat_ms_v (collect_vecs L cap lines) G_WHOLE = []"
    using collect_vecs_other_group [of cap G_WHOLE L empty_vecs lines, OF never]
    by (simp_all add: collect_vecs_def empty_vecs_def)
  show "s_n (read_s (collect_aggregates L hz (Some lines) cap) G_WHOLE) = 0"
    by (simp add: collect_aggregates_def Let_def empty calc_stats_from_vec_def)
  show "s_n (write_s (collect_aggregates L hz (Some lines) cap) G_WHOLE) = 0"
    by (simp add: collect_aggregates_def Let_def empty calc_stats_from_vec_def)
  show "s_n (erase_s (collect_aggregates L hz (Some lines) cap) G_WHOLE) = 0"
    by (simp add: collect_aggregates_def Let_def empty calc_stats_from_vec_def)
  show "s_n (read_lat_ms (collect_aggregates L hz (Some lines) cap) G_WHOLE) = 0"
    by (simp add: collect_aggregates_def Let_def empty calc_stats_from_vec_def)
qed

theorem fixed_widths_before_whole_witness:
  "G_4K \<noteq> G_WHOLE \<and> classify_group (GROUP_BYTES G_4K) 4096 = Some G_4K \<and>
   (4096 :: 32 word) \<in> {1, 256, 4096, 32768, 65536} \<and>
   classify_group 4096 4096 \<noteq> Some G_WHOLE \<and>
   s_n (erase_s (collect_aggregates libc_plain 0 (Some [''X,erase,4096,0,1000,0'']) 4096) G_WHOLE) = 0"
  using fixed_widths_before_whole [of G_4K 4096 4096 libc_plain 0 "[''X,erase,4096,0,1000,0'']"]
  by simp

section \<open>Rows of the report\<close>

lemma f32_zero [simp]: "f32 0 = 0"
  by (simp add: f32_def round_to_def)

lemma report_is_written:
  "write_report_csv rows A m j cap True \<noteq> None"
  by (simp add: write_report_csv_def Let_def)

lemma db_mean_row_in_report:
  assumes "write_report_csv rows A m j cap ok = Some rep"
      and "Cols (''db_mean_'' @ group_suffix g) R W E \<in> set rep"
  shows "R = f3_or_na (db_read (compute_db_means_closest rows A cap) g)
       \<and> W = f3_or_na (db_write (compute_db_means_closest rows A cap) g)
       \<and> E = f3_or_na (db_erase (compute_db_means_closest rows A cap) g)"
  using assms
  by (cases g)
     (auto simp: write_report_csv_def Let_def groups_def write_three_cols_def
        write_three_cols_f_def write_three_cols_f_std_def write_three_cols_i_def
        write_summary_ms_for_group_def notes_row_def split: if_splits prod.splits)

lemma db_mean_row_present:
  assumes "write_report_csv rows A m j cap ok = Some rep"
  shows "Cols (''db_mean_'' @ group_suffix g)
           (f3_or_na (db_read (compute_db_means_closest rows A cap) g))
           (f3_or_na (db_write (compute_db_means_closest rows A cap) g))
           (f3_or_na (db_erase (compute_db_means_closest rows A cap) g)) \<in> set rep"
  using assms
  by (cases g)
     (auto simp: write_report_csv_def Let_def groups_def write_three_cols_def
        write_three_cols_f_def split: if_splits)

section \<open>Unknown SPI clock\<close>

lemma db_read_no_sck:
  "\<not> fgt (sck_MHz A) (Fin 0) \<Longrightarrow> db_read (compute_db_means_closest rows A cap) g = NaN"
  by (simp add: compute_db_means_closest_def closest_init_def)

lemma sck_of_zero_baud: "sck_MHz (collect_aggregates L 0 results cap) = Fin 0"
  by (simp add: collect_aggregates_def float_of_u32_def float_of_int_def Let_def
      split: option.splits)

text \<open>
  Claim C7.  When the flash driver reports an SPI clock of 0 Hz, the read cell of every
  \<open>db_mean_<group>\<close> row of the report is the text \<open>NA\<close>, whatever the results log and
  the catalogue contain.
\<close>

theorem sck_zero_read_db_mean_na:
  assumes "report_generate_csv L db jedec_text 0 results rf_ok = Some rep"
      and "Cols (''db_mean_'' @ group_suffix g) R W E \<in> set rep"
  shows "R = Txt NA_STR"
proof -
  obtain rows A m j cap where
    A: "A = collect_aggregates L 0 results cap"
    and rep: "write_report_csv rows A m j cap rf_ok = Some rep"
    using assms(1) by (simp add: report_generate_csv_def Let_def)
  have "\<not> fgt (sck_MHz A) (Fin 0)"
    by (simp add: A sck_of_zero_baud fgt_def)
  then have "db_read (compute_db_means_closest rows A cap) g = NaN"
    by (rule db_read_no_sck)
  with db_mean_row_in_report [OF rep assms(2)] show ?thesis
    by (simp add: f3_or_na_def)
qed

theorem sck_zero_read_db_mean_na_witness:
  "\<exists>rep W E. report_generate_csv libc_plain (Some ex_db) ''BF 26 41'' 0 (Some ex_results) True = Some rep
     \<and> Cols (''db_mean_'' @ group_suffix G_4K) (Txt NA_STR) W E \<in> set rep"
proof -
  obtain rows A m j cap where
    unf: "report_generate_csv libc_plain (Some ex_db) ''BF 26 41'' 0 (Some ex_results) True
          = write_report_csv rows A m j cap True"
    by (simp add: report_generate_csv_def Let_def)
  obtain rep where rep: "write_report_csv rows A m j cap True = Some rep"
    using report_is_written [of rows A m j cap] by auto
  have run: "report_generate_csv libc_plain (Some ex_db) ''BF 26 41'' 0 (Some ex_results) True = Some rep"
    using unf rep by simp
  let ?M = "compute_db_means_closest rows A cap"
  have row: "Cols (''db_mean_'' @ group_suffix G_4K) (f3_or_na (db_read ?M G_4K))
               (f3_or_na (db_write ?M G_4K)) (f3_or_na (db_erase ?M G_4K)) \<in> set rep"
    by (rule db_mean_row_present [OF rep])
  have "f3_or_na (db_read ?M G_4K) = Txt NA_STR"
    by (rule sck_zero_read_db_mean_na [OF run row])
  with run row show ?thesis by metis
qed

section \<open>The final guess without measurements\<close>

lemma guess_row_last:
  assumes "write_report_csv rows A m j cap ok = Some rep"
  shows "last rep = (case final_guess rows A m j cap of (a, b, c, d) \<Rightarrow> Guess a b c d)"
  using assms by (auto simp: write_report_csv_def Let_def split: if_splits prod.splits)

lemma final_guess_no_samples:
  assumes "\<forall>g. s_n (read_s A g) \<le> 0 \<and> s_n (write_s A g) \<le> 0 \<and> s_n (erase_s A g) \<le> 0"
      and "jedec \<noteq> []"
  shows "final_guess rows A m jedec cap =
           (case m of
              Some r \<Rightarrow> (jedec, or_na (chip_model r), or_na (company r), Txt ''0.000'')
            | None \<Rightarrow> (jedec, NA_STR, NA_STR, Txt ''0.000''))"
proof -
  have "\<not> list_ex (\<lambda>g. 0 < s_n (read_s A g) \<or> 0 < s_n (write_s A g) \<or> 0 < s_n (erase_s A g)) groups"
    using assms(1) by (auto simp: list_ex_iff not_less)
  then show ?thesis
    using assms(2) by (simp add: final_guess_def Let_def split: prod.splits option.splits)
qed

lemma empty_log_no_samples:
  "s_n (read_s (collect_aggregates L hz (Some []) cap) g) = 0"
  "s_n (write_s (collect_aggregates L hz (Some []) cap) g) = 0"
  "s_n (erase_s (collect_aggregates L hz (Some []) cap) g) = 0"
  by (simp_all add: collect_aggregates_def collect_vecs_def empty_vecs_def
      calc_stats_from_vec_def Let_def)

text \<open>
  Claim C2, as amended.  When no bucket has a sample and the observed JEDEC is known, the
  value row of the final guess carries the observed JEDEC and the text \<open>0.000\<close>; its model
  and company are those of the JEDEC-matched catalogue row (\<open>NA\<close> for an empty one), and
  are the text \<open>NA\<close>, not \<open>undecided\<close>, when no catalogue row matches.
\<close>

theorem final_guess_without_samples:
  assumes "write_report_csv rows A match_row jedec cap rf_ok = Some rep"
      and "\<forall>g. s_n (read_s A g) \<le> 0 \<and> s_n (write_s A g) \<le> 0 \<and> s_n (erase_s A g) \<le> 0"
      and "jedec \<noteq> []"
  shows "last rep =
           (case match_row of
              Some r \<Rightarrow> Guess jedec (or_na (chip_model r)) (or_na (company r)) (Txt ''0.000'')
            | None \<Rightarrow> Guess jedec NA_STR NA_STR (Txt ''0.000''))"
  using guess_row_last [OF assms(1)] final_guess_no_samples [OF assms(2,3), of rows match_row cap]
  by (simp split: option.splits)

lemma ex_db_rows:
  "load_database libc_plain (Some ex_db) MAX_DB_ROWS
    = [\<lparr>jedec_norm = ''BF2641'', chip_model = ''X'', company = ''ACME'', family = [],
         capacity_mbit = - 1, typ_4k_ms = Fin 45, typ_32k_ms = Fin (- 1), typ_64k_ms = Fin (- 1),
         typ_page_ms = Fin (11744051 / 16777216), read50_MBps = Fin 5\<rparr>]"
  by code_simp

lemma normalize_c21f17: "normalize_jedec ''C2 1F 17'' = ''C21F17''"
  by code_simp

text \<open>The catalogue \<open>ex_db\<close> has no row for the JEDEC \<open>C21F17\<close>, and the results log is
  empty: the final guess names the JEDEC with model \<open>NA\<close> and company \<open>NA\<close>.\<close>

theorem final_guess_unmatched_counterexample:
  "last (the (report_generate_csv libc_plain (Some ex_db) ''C2 1F 17'' 0 (Some []) True))
     = Guess ''C21F17'' ''NA'' ''NA'' (Txt ''0.000'')"
proof -
  let ?rows = "load_database libc_plain (Some ex_db) MAX_DB_ROWS"
  let ?A = "collect_aggregates libc_plain 0 (Some []) 0"
  have m: "find_match_row ?rows ''C21F17'' = None"
    by (simp add: ex_db_rows find_match_row_def)
  have run: "report_generate_csv libc_plain (Some ex_db) ''C2 1F 17'' 0 (Some []) True
             = write_report_csv ?rows ?A None ''C21F17'' 0 True"
    by (simp add: report_generate_csv_def Let_def normalize_c21f17 m)
  obtain rep where rep: "write_report_csv ?rows ?A None ''C21F17'' 0 True = Some rep"
    using report_is_written [of ?rows ?A None "''C21F17''" 0] by auto
  have "final_guess ?rows ?A None ''C21F17'' 0 = (''C21F17'', NA_STR, NA_STR, Txt ''0.000'')"
    using final_guess_no_samples [of ?A "''C21F17''" ?rows None 0]
    by (simp add: empty_log_no_samples)
  with guess_row_last [OF rep] have "last rep = Guess ''C21F17'' ''NA'' ''NA'' (Txt ''0.000'')"
    by (simp add: NA_STR_def)
  with run rep show ?thesis by simp
qed

theorem final_guess_without_samples_witness:
  "\<exists>rep. write_report_csv [] (collect_aggregates libc_plain 0 (Some []) 0)
            (Some \<lparr>jedec_norm = ''BF2641'', chip_model = ''X'', company = ''ACME'', family = [],
                   capacity_mbit = - 1, typ_4k_ms = Fin 45, typ_32k_ms = Fin (- 1),
                   typ_64k_ms = Fin (- 1), typ_page_ms = Fin (- 1), read50_MBps = Fin 5\<rparr>)
            ''BF2641'' 0 True = Some rep
     \<and> (\<forall>g. s_n (read_s (collect_aggregates libc_plain 0 (Some []) 0) g) \<le> 0
           \<and> s_n (write_s (collect_aggregates libc_plain 0 (Some []) 0) g) \<le> 0
           \<and> s_n (erase_s (collect_aggregates libc_plain 0 (Some []) 0) g) \<le> 0)
     \<and> ''BF2641'' \<noteq> []
     \<and> last rep = Guess ''BF2641'' ''X'' ''ACME'' (Txt ''0.000'')"
proof -
  let ?A = "collect_aggregates libc_plain 0 (Some []) 0"
  let ?r = "\<lparr>jedec_norm = ''BF2641'', chip_model = ''X'', company = ''ACME'', family = [],
                   capacity_mbit = - 1, typ_4k_ms = Fin 45, typ_32k_ms = Fin (- 1),
                   typ_64k_ms = Fin (- 1), typ_page_ms = Fin (- 1), read50_MBps = Fin 5\<rparr>"
  obtain rep where rep: "write_report_csv [] ?A (Some ?r) ''BF2641'' 0 True = Some rep"
    using report_is_written [of "[]" ?A "Some ?r" "''BF2641''" 0] by auto
  have none: "\<forall>g. s_n (read_s ?A g) \<le> 0 \<and> s_n (write_s ?A g) \<le> 0 \<and> s_n (erase_s ?A g) \<le> 0"
    by (simp add: empty_log_no_samples)
  have "last rep = Guess ''BF2641'' ''X'' ''ACME'' (Txt ''0.000'')"
    using final_guess_without_samples [OF rep none] by (simp add: or_na_def)
  with rep none show ?thesis by simp
qed

section \<open>Formats of the report\<close>















section \<open>The matching loop\<close>

lemma flt_trans: "flt a b \<Longrightarrow> flt b c \<Longrightarrow> flt a c"
  by (cases a; cases b; cases c) auto

lemma beaten_not_fle: "\<not> flt q b \<Longrightarrow> flt p b \<Longrightarrow> \<not> fle q p"
  by (cases q; cases b; cases p) auto

lemma not_fle_not_flt: "\<not> fle q p \<Longrightarrow> \<not> flt q p"
  by (cases q; cases p) auto

lemma flt_irrefl: "\<not> flt a a"
  by (cases a) auto

lemma flt_not_nan: "flt (distance p mean) b \<Longrightarrow> \<not> is_nan p"
  by (cases p; cases mean) (auto simp: distance_def)

lemma loop_inv_step_none:
  assumes "loop_inv pr mean pre st" and "pr r = None"
  shows "loop_inv pr mean (pre @ [r]) st"
  using assms
  by (auto simp: loop_inv_def closest_pick_def in_reach_def nth_append split: prod.splits)

lemma loop_inv_step_keep:
  assumes "loop_inv pr mean pre (bd, bp, bi)" and "pr r = Some p" and "\<not> flt (distance p mean) bd"
  shows "loop_inv pr mean (pre @ [r]) (bd, bp, bi)"
  using assms
  by (auto simp: loop_inv_def closest_pick_def in_reach_def nth_append less_Suc_eq)

lemma loop_inv_step_take:
  assumes "loop_inv pr mean pre (bd, bp, bi)" and "pr r = Some p" and "flt (distance p mean) bd"
  shows "loop_inv pr mean (pre @ [r]) (distance p mean, p, int (length pre))"
proof -
  have reach: "flt (distance p mean) (Fin 1000000000)"
    using assms by (auto simp: loop_inv_def intro: flt_trans)
  have older: "\<not> fle (distance q mean) (distance p mean)" if "j < length pre" "pr (pre ! j) = Some q" for j q
  proof -
    have "\<not> flt (distance q mean) bd"
      using assms(1) that
      by (auto simp: loop_inv_def closest_pick_def in_reach_def split: option.splits)
    then show ?thesis using assms(3) by (rule beaten_not_fle)
  qed
  show ?thesis
    using reach older assms(2) flt_not_nan [OF reach]
    by (auto simp: loop_inv_def closest_pick_def nth_append less_Suc_eq flt_irrefl
        dest: not_fle_not_flt)
qed

lemma closest_loop_inv:
  "loop_inv pr mean pre st \<Longrightarrow> i = int (length pre)
     \<Longrightarrow> loop_inv pr mean (pre @ rs) (closest_loop pr mean rs i st)"
proof (induction rs arbitrary: pre st i)
  case Nil
  then show ?case by simp
next
  case (Cons r rs)
  obtain bd bp bi where st: "st = (bd, bp, bi)" by (cases st)
  have len: "i + 1 = int (length (pre @ [r]))" using Cons.prems(2) by simp
  show ?case
  proof (cases "pr r")
    case None
    from Cons.IH [OF loop_inv_step_none [OF Cons.prems(1) None] len]
    show ?thesis using None st by simp
  next
    case (Some p)
    show ?thesis
    proof (cases "flt (distance p mean) bd")
      case True
      from Cons.IH [OF loop_inv_step_take [OF Cons.prems(1) [unfolded st] Some True] len]
      show ?thesis using Some True st Cons.prems(2) by (simp add: distance_def)
    next
      case False
      from Cons.IH [OF loop_inv_step_keep [OF Cons.prems(1) [unfolded st] Some False] len]
      show ?thesis using Some False st by (simp add: distance_def)
    qed
  qed
qed

lemma closest_loop_result:
  "loop_inv pr mean rows (closest_loop pr mean rows 0 closest_init)"
  using closest_loop_inv [of pr mean "[]" closest_init 0 rows]
  by (simp add: loop_inv_def closest_init_def)

lemma pick_from_loop:
  "case closest_loop pr mean rows 0 closest_init of
     (bd, bp, bi) \<Rightarrow>
       if \<exists>r \<in> set rows. in_reach pr mean r
       then 0 \<le> bi \<and> flt bd (Fin 1000000000) \<and> closest_pick pr mean rows (nat bi) bp
       else bi = - 1 \<and> bd = Fin 1000000000"
proof -
  obtain bd bp bi where st: "closest_loop pr mean rows 0 closest_init = (bd, bp, bi)"
    by (cases "closest_loop pr mean rows 0 closest_init")
  have inv: "loop_inv pr mean rows (bd, bp, bi)"
    using closest_loop_result [where pr = pr and mean = mean and rows = rows] by (simp add: st)
  show ?thesis
  proof (cases "bi = - 1")
    case True
    with inv show ?thesis by (auto simp: st loop_inv_def)
  next
    case False
    with inv have w: "0 \<le> bi" "bd = distance bp mean" "flt bd (Fin 1000000000)"
      "closest_pick pr mean rows (nat bi) bp"
      by (auto simp: loop_inv_def)
    then have "in_reach pr mean (rows ! nat bi)" "rows ! nat bi \<in> set rows"
      by (auto simp: closest_pick_def in_reach_def)
    with w show ?thesis by (auto simp: st)
  qed
qed

lemma loop_value:
  assumes st: "closest_loop pr mean rows 0 closest_init = (bd, bp, bi)"
  shows "(\<exists>r \<in> set rows. in_reach pr mean r)
           \<Longrightarrow> 0 \<le> bi \<and> flt bd (Fin 1000000000) \<and> closest_pick pr mean rows (nat bi) bp \<and> \<not> is_nan bp"
    and "\<not> (\<exists>r \<in> set rows. in_reach pr mean r) \<Longrightarrow> \<not> 0 \<le> bi \<and> \<not> flt bd (Fin 1000000000)"
  using pick_from_loop [where pr = pr and mean = mean and rows = rows]
  by (simp_all add: st closest_pick_def)

lemma db_read_cell:
  "if fgt (sck_MHz A) (Fin 0) \<and> 0 < s_n (read_s A g)
      \<and> (\<exists>r \<in> set rows. in_reach (read_pred A) (s_mean (read_s A g)) r)
   then \<exists>k v. closest_pick (read_pred A) (s_mean (read_s A g)) rows k v
          \<and> f3_or_na (db_read (compute_db_means_closest rows A cap) g) = Fixed 3 v
   else f3_or_na (db_read (compute_db_means_closest rows A cap) g) = Txt NA_STR"
proof -
  obtain bd bp bi where
    st: "closest_loop (read_pred A) (s_mean (read_s A g)) rows 0 closest_init = (bd, bp, bi)"
    by (cases "closest_loop (read_pred A) (s_mean (read_s A g)) rows 0 closest_init")
  show ?thesis
  proof (cases "fgt (sck_MHz A) (Fin 0) \<and> 0 < s_n (read_s A g)")
    case False
    then show ?thesis
      by (auto simp: compute_db_means_closest_def closest_init_def f3_or_na_def)
  next
    case on: True
    show ?thesis
    proof (cases "\<exists>r \<in> set rows. in_reach (read_pred A) (s_mean (read_s A g)) r")
      case True
      from loop_value(1) [OF st True] on True show ?thesis
        by (auto simp: compute_db_means_closest_def st f3_or_na_def)
    next
      case False
      from loop_value(2) [OF st False] on False show ?thesis
        by (auto simp: compute_db_means_closest_def st f3_or_na_def)
    qed
  qed
qed

lemma db_write_cell:
  "case write_pages g cap of
     None \<Rightarrow> f3_or_na (db_write (compute_db_means_closest rows A cap) g) = Txt NA_STR
   | Some pages \<Rightarrow>
       if 0 < s_n (write_s A g)
          \<and> (\<exists>r \<in> set rows. in_reach (write_pred pages) (s_mean (write_s A g)) r)
       then \<exists>k v. closest_pick (write_pred pages) (s_mean (write_s A g)) rows k v
              \<and> f3_or_na (db_write (compute_db_means_closest rows A cap) g) = Fixed 3 v
       else f3_or_na (db_write (compute_db_means_closest rows A cap) g) = Txt NA_STR"
proof (cases "write_pages g cap")
  case None
  then show ?thesis by (simp add: compute_db_means_closest_def f3_or_na_def)
next
  case (Some pages)
  obtain bd bp bi where
    st: "closest_loop (write_pred pages) (s_mean (write_s A g)) rows 0 closest_init = (bd, bp, bi)"
    by (cases "closest_loop (write_pred pages) (s_mean (write_s A g)) rows 0 closest_init")
  show ?thesis
  proof (cases "0 < s_n (write_s A g)")
    case False
    then show ?thesis
      by (simp add: Some compute_db_means_closest_def f3_or_na_def)
  next
    case on: True
    show ?thesis
    proof (cases "\<exists>r \<in> set rows. in_reach (write_pred pages) (s_mean (write_s A g)) r")
      case True
      from loop_value(1) [OF st True] on True show ?thesis
        by (auto simp: Some compute_db_means_closest_def st f3_or_na_def)
    next
      case False
      from loop_value(2) [OF st False] on False show ?thesis
        by (auto simp: Some compute_db_means_closest_def st f3_or_na_def)
    qed
  qed
qed

lemma db_erase_cell:
  "if 0 < s_n (erase_s A g) \<and> (\<exists>r \<in> set rows. in_reach (erase_pred g) (s_mean (erase_s A g)) r)
   then \<exists>k v. closest_pick (erase_pred g) (s_mean (erase_s A g)) rows k v
          \<and> f3_or_na (db_erase (compute_db_means_closest rows A cap) g) = Fixed 3 v
   else f3_or_na (db_erase (compute_db_means_closest rows A cap) g) = Txt NA_STR"
proof -
  obtain bd bp bi where
    st: "closest_loop (erase_pred g) (s_mean (erase_s A g)) rows 0 closest_init = (bd, bp, bi)"
    by (cases "closest_loop (erase_pred g) (s_mean (erase_s A g)) rows 0 closest_init")
  show ?thesis
  proof (cases "0 < s_n (erase_s A g)")
    case False
    then show ?thesis
      by (simp add: compute_db_means_closest_def f3_or_na_def)
  next
    case on: True
    show ?thesis
    proof (cases "\<exists>r \<in> set rows. in_reach (erase_pred g) (s_mean (erase_s A g)) r")
      case True
      from loop_value(1) [OF st True] on True show ?thesis
        by (auto simp: compute_db_means_closest_def st f3_or_na_def)
    next
      case False
      from loop_value(2) [OF st False] on False show ?thesis
        by (auto simp: compute_db_means_closest_def st f3_or_na_def)
    qed
  qed
qed

text \<open>
  Claim C1, as amended.  In every \<open>db_mean_<group>\<close> row of the report, a cell whose
  bucket has samples and for which some catalogue row carries the relevant positive field
  with a prediction less than \<open>1e9\<close> away from the mean of the bucket (for a read cell with
  a positive SPI clock, for a write cell with a page count that is not zero) holds, with
  three decimals, a number that is the prediction of a catalogue row: no row is strictly
  closer to the mean and no earlier row is as close.  Every other cell is \<open>NA\<close>.
\<close>

theorem db_mean_closest_or_na:
  assumes "write_report_csv rows A m j cap rf_ok = Some rep"
      and "Cols (''db_mean_'' @ group_suffix g) R W E \<in> set rep"
  shows "(if fgt (sck_MHz A) (Fin 0) \<and> 0 < s_n (read_s A g)
             \<and> (\<exists>r \<in> set rows. in_reach (read_pred A) (s_mean (read_s A g)) r)
          then \<exists>k v. closest_pick (read_pred A) (s_mean (read_s A g)) rows k v \<and> R = Fixed 3 v
          else R = Txt NA_STR)
       \<and> (case write_pages g cap of
            None \<Rightarrow> W = Txt NA_STR
          | Some pages \<Rightarrow>
              if 0 < s_n (write_s A g)
                 \<and> (\<exists>r \<in> set rows. in_reach (write_pred pages) (s_mean (write_s A g)) r)
              then \<exists>k v. closest_pick (write_pred pages) (s_mean (write_s A g)) rows k v
                     \<and> W = Fixed 3 v
              else W = Txt NA_STR)
       \<and> (if 0 < s_n (erase_s A g)
             \<and> (\<exists>r \<in> set rows. in_reach (erase_pred g) (s_mean (erase_s A g)) r)
          then \<exists>k v. closest_pick (erase_pred g) (s_mean (erase_s A g)) rows k v \<and> E = Fixed 3 v
          else E = Txt NA_STR)"
proof -
  let ?M = "compute_db_means_closest rows A cap"
  from db_mean_row_in_report [OF assms]
  have R: "R = f3_or_na (db_read ?M g)" and W: "W = f3_or_na (db_write ?M g)"
    and E: "E = f3_or_na (db_erase ?M g)"
    by simp_all
  show ?thesis
    unfolding R W E by (intro conjI db_read_cell db_write_cell db_erase_cell)
qed

lemma agg_sections:
  "read_s (collect_aggregates L hz (Some ls) cap) g = calc_stats_from_vec L (read_v (collect_vecs L cap ls) g)"
  "write_s (collect_aggregates L hz (Some ls) cap) g = calc_stats_from_vec L (write_v (collect_vecs L cap ls) g)"
  "erase_s (collect_aggregates L hz (Some ls) cap) g = calc_stats_from_vec L (erase_v (collect_vecs L cap ls) g)"
  "read_lat_ms (collect_aggregates L hz (Some ls) cap) g
     = calc_stats_from_vec L (read_lat_ms_v (collect_vecs L cap ls) g)"
  by (simp_all add: collect_aggregates_def Let_def)

lemma n_row_present:
  assumes "write_report_csv rows A m j cap ok = Some rep"
  shows "Cols (''n_'' @ group_suffix g) (i_or_na (s_n (read_lat_ms A g)))
           (i_or_na (s_n (write_s A g))) (i_or_na (s_n (erase_s A g))) \<in> set rep"
  using assms
  by (cases g)
     (auto simp: write_report_csv_def Let_def groups_def write_three_cols_def
        write_three_cols_i_def write_summary_ms_for_group_def split: if_splits)

lemma stats_empty_n: "s_n (calc_stats_from_vec L []) = 0"
  by (simp add: calc_stats_from_vec_def)

lemma far_rows: "load_database libc_plain (Some far_db) MAX_DB_ROWS = [far_row]"
  by code_simp

lemma far_vecs:
  "read_v (collect_vecs libc_plain 0 far_results) G_4K = []"
  "write_v (collect_vecs libc_plain 0 far_results) G_4K = []"
  "erase_v (collect_vecs libc_plain 0 far_results) G_4K = [1]"
  "read_lat_ms_v (collect_vecs libc_plain 0 far_results) G_4K = []"
  by code_simp+

lemma one_sample_stats:
  "s_n (calc_stats_from_vec L [x]) = 1"
  "s_mean (calc_stats_from_vec libc_plain [1]) = Fin 1"
  "s_mean (calc_stats_from_vec libc_plain [46]) = Fin 46"
  by (simp add: calc_stats_from_vec_def Let_def) code_simp+

lemma far_loop:
  "closest_loop (erase_pred G_4K) (Fin 1) [far_row] 0 closest_init = closest_init"
  by code_simp

text \<open>The catalogue \<open>far_db\<close> gives a 4 KB erase time of \<open>2e9\<close> ms and the log holds one
  4 KB erase of 1 ms: the bucket has a sample and the row carries the field, yet the erase
  cell of \<open>db_mean_4096B\<close> is \<open>NA\<close>.\<close>

theorem far_prediction_counterexample:
  "typ_4k_ms (hd (load_database libc_plain (Some far_db) MAX_DB_ROWS)) = Fin 2000000000
   \<and> Cols ''n_4096B'' (Txt ''NA'') (Txt ''NA'') (IntC 1)
       \<in> set (the (report_generate_csv libc_plain (Some far_db) ''EF4016'' 0 (Some far_results) True))
   \<and> Cols ''db_mean_4096B'' (Txt ''NA'') (Txt ''NA'') (Txt ''NA'')
       \<in> set (the (report_generate_csv libc_plain (Some far_db) ''EF4016'' 0 (Some far_results) True))"
proof -
  let ?A = "collect_aggregates libc_plain 0 (Some far_results) 0"
  have j: "normalize_jedec ''EF4016'' = ''EF4016''"
    by code_simp
  have run: "report_generate_csv libc_plain (Some far_db) ''EF4016'' 0 (Some far_results) True
             = write_report_csv [far_row] ?A (Some far_row) ''EF4016'' 0 True"
    by (simp add: report_generate_csv_def Let_def far_rows j find_match_row_def far_row_def)
  obtain rep where rep: "write_report_csv [far_row] ?A (Some far_row) ''EF4016'' 0 True = Some rep"
    using report_is_written [of "[far_row]" ?A "Some far_row" "''EF4016''" 0] by auto
  let ?M = "compute_db_means_closest [far_row] ?A 0"
  have n: "s_n (read_lat_ms ?A G_4K) = 0" "s_n (write_s ?A G_4K) = 0" "s_n (erase_s ?A G_4K) = 1"
    "s_n (read_s ?A G_4K) = 0"
    by (simp_all add: agg_sections far_vecs stats_empty_n one_sample_stats)
  have mean: "s_mean (erase_s ?A G_4K) = Fin 1"
    by (simp add: agg_sections far_vecs one_sample_stats)
  have r: "db_read ?M G_4K = NaN"
    by (simp add: compute_db_means_closest_def n closest_init_def)
  have w: "db_write ?M G_4K = NaN"
    by (simp add: compute_db_means_closest_def n)
  have "db_erase ?M G_4K = (case closest_init of (bd, bp, bi) \<Rightarrow> if flt bd (Fin 1000000000) then bp else NaN)"
    by (simp add: compute_db_means_closest_def n mean far_loop)
  then have e: "db_erase ?M G_4K = NaN"
    by (simp add: closest_init_def)
  have "Cols ''n_4096B'' (Txt ''NA'') (Txt ''NA'') (IntC 1) \<in> set rep"
    using n_row_present [OF rep, of G_4K] by (simp add: n i_or_na_def NA_STR_def)
  moreover have "Cols ''db_mean_4096B'' (Txt ''NA'') (Txt ''NA'') (Txt ''NA'') \<in> set rep"
    using db_mean_row_present [OF rep, of G_4K] by (simp add: r w e f3_or_na_def NA_STR_def)
  moreover have "typ_4k_ms (hd (load_database libc_plain (Some far_db) MAX_DB_ROWS)) = Fin 2000000000"
    by (simp add: far_rows far_row_def)
  ultimately show ?thesis by (simp add: run rep)
qed

lemma ex_vecs:
  "erase_v (collect_vecs libc_plain 0 ex_results) G_4K = [46]"
  by code_simp

lemma ex_reach: "in_reach (erase_pred G_4K) (Fin 46) ex_row"
  by code_simp

theorem db_mean_closest_or_na_witness:
  "\<exists>rep R W E.
     write_report_csv [ex_row] (collect_aggregates libc_plain 10000000 (Some ex_results) 0)
       (Some ex_row) ''BF2641'' 0 True = Some rep
     \<and> Cols (''db_mean_'' @ group_suffix G_4K) R W E \<in> set rep
     \<and> 0 < s_n (erase_s (collect_aggregates libc_plain 10000000 (Some ex_results) 0) G_4K)
     \<and> (\<exists>k v. closest_pick (erase_pred G_4K)
                 (s_mean (erase_s (collect_aggregates libc_plain 10000000 (Some ex_results) 0) G_4K))
                 [ex_row] k v \<and> E = Fixed 3 v)"
proof -
  let ?A = "collect_aggregates libc_plain 10000000 (Some ex_results) 0"
  let ?M = "compute_db_means_closest [ex_row] ?A 0"
  obtain rep where rep: "write_report_csv [ex_row] ?A (Some ex_row) ''BF2641'' 0 True = Some rep"
    using report_is_written [of "[ex_row]" ?A "Some ex_row" "''BF2641''" 0] by auto
  have row: "Cols (''db_mean_'' @ group_suffix G_4K) (f3_or_na (db_read ?M G_4K))
               (f3_or_na (db_write ?M G_4K)) (f3_or_na (db_erase ?M G_4K)) \<in> set rep"
    by (rule db_mean_row_present [OF rep])
  have n: "0 < s_n (erase_s ?A G_4K)"
    by (simp add: agg_sections ex_vecs one_sample_stats)
  have reach: "\<exists>r \<in> set [ex_row]. in_reach (erase_pred G_4K) (s_mean (erase_s ?A G_4K)) r"
    by (simp add: agg_sections ex_vecs one_sample_stats ex_reach)
  from db_mean_closest_or_na [OF rep row] n reach
  have "\<exists>k v. closest_pick (erase_pred G_4K) (s_mean (erase_s ?A G_4K)) [ex_row] k v
          \<and> f3_or_na (db_erase ?M G_4K) = Fixed 3 v"
    by simp
  with rep row n show ?thesis by blast
qed

section \<open>The catalogue loader\<close>

lemma load_rows_take:
  "load_rows L ix max_rows n lines
     = map (\<lambda>raw. parse_row L ix (db_fields raw)) (take (max_rows - n) (filter parseable lines))"
proof (induction lines arbitrary: n)
  case Nil
  show ?case by simp
next
  case (Cons raw rest)
  show ?case
  proof (cases "n < max_rows")
    case False
    then show ?thesis by simp
  next
    case True
    then have suc: "max_rows - n = Suc (max_rows - Suc n)" by simp
    show ?thesis
    proof (cases "parseable raw")
      case True
      then have "trim (fatfs_gets MAX_LINE raw) \<noteq> []"
        by (auto simp: parseable_def db_fields_def split_fields_def strtok_all_def)
      with True \<open>n < max_rows\<close> show ?thesis
        by (simp add: Cons.IH parseable_def db_fields_def Let_def suc del: take_Suc_Cons)
          (simp add: suc)
    next
      case False
      with \<open>n < max_rows\<close> show ?thesis
        by (auto simp: Cons.IH parseable_def db_fields_def Let_def)
    qed
  qed
qed

lemma load_database_take:
  "load_database L (Some (hdr # lines)) max_rows
     = map (\<lambda>raw. parse_row L (header_indices (db_fields hdr)) (db_fields raw))
         (take max_rows (filter parseable lines))"
  by (simp add: load_database_def Let_def load_rows_take db_fields_def)

lemma load_database_length: "length (load_database L db max_rows) \<le> max_rows"
proof (cases db)
  case None
  then show ?thesis by (simp add: load_database_def)
next
  case (Some content)
  then show ?thesis
    by (cases content) (simp_all add: load_database_take, simp add: load_database_def)
qed

text \<open>
  Claim C9.  The loader returns at most 512 rows: the parsed first 512 parseable lines
  after the header.  Whatever follows the 512th parseable line has no effect on the
  report, which is written as usual.
\<close>

theorem catalogue_cut_at_max_rows:
  "length (load_database L db MAX_DB_ROWS) \<le> 512
   \<and> load_database L (Some (hdr # lines)) MAX_DB_ROWS
       = map (\<lambda>raw. parse_row L (header_indices (db_fields hdr)) (db_fields raw))
           (take 512 (filter parseable lines))
   \<and> (take 512 (filter parseable lines) = take 512 (filter parseable lines')
        \<longrightarrow> report_generate_csv L (Some (hdr # lines)) jedec_text baud_hz results rf_ok
            = report_generate_csv L (Some (hdr # lines')) jedec_text baud_hz results rf_ok)"
proof (intro conjI impI)
  show "length (load_database L db MAX_DB_ROWS) \<le> 512"
    using load_database_length [of L db MAX_DB_ROWS] by (simp add: MAX_DB_ROWS_def)
  show "load_database L (Some (hdr # lines)) MAX_DB_ROWS
       = map (\<lambda>raw. parse_row L (header_indices (db_fields hdr)) (db_fields raw))
           (take 512 (filter parseable lines))"
    by (simp add: load_database_take MAX_DB_ROWS_def)
  assume "take 512 (filter parseable lines) = take 512 (filter parseable lines')"
  then have "load_database L (Some (hdr # lines)) MAX_DB_ROWS
             = load_database L (Some (hdr # lines')) MAX_DB_ROWS"
    by (simp add: load_database_take MAX_DB_ROWS_def)
  then show "report_generate_csv L (Some (hdr # lines)) jedec_text baud_hz results rf_ok
            = report_generate_csv L (Some (hdr # lines')) jedec_text baud_hz results rf_ok"
    by (simp add: report_generate_csv_def)
qed

lemma ex_line_parseable: "parseable ''X,ACME,BF2641,45,0.7,5.0''"
  by code_simp

theorem catalogue_cut_at_max_rows_witness:
  "take 512 (filter parseable (replicate 512 ''X,ACME,BF2641,45,0.7,5.0'' @ [''Y,ACME,C21F17,30,0.6,4.0'']))
     = take 512 (filter parseable (replicate 512 ''X,ACME,BF2641,45,0.7,5.0''))
   \<and> report_generate_csv libc_plain
        (Some (hd ex_db # replicate 512 ''X,ACME,BF2641,45,0.7,5.0'' @ [''Y,ACME,C21F17,30,0.6,4.0'']))
        ''C21F17'' 10000000 (Some ex_results) True
     = report_generate_csv libc_plain
        (Some (hd ex_db # replicate 512 ''X,ACME,BF2641,45,0.7,5.0''))
        ''C21F17'' 10000000 (Some ex_results) True"
proof -
  have cut: "take 512 (filter parseable (replicate 512 ''X,ACME,BF2641,45,0.7,5.0'' @ [''Y,ACME,C21F17,30,0.6,4.0'']))
     = take 512 (filter parseable (replicate 512 ''X,ACME,BF2641,45,0.7,5.0''))"
    by (simp add: ex_line_parseable)
  with catalogue_cut_at_max_rows [of libc_plain None "hd ex_db"
      "replicate 512 ''X,ACME,BF2641,45,0.7,5.0'' @ [''Y,ACME,C21F17,30,0.6,4.0'']"
      "replicate 512 ''X,ACME,BF2641,45,0.7,5.0''" "''C21F17''" 10000000 "Some ex_results" True]
  show ?thesis by blast
qed

section \<open>Permuting the lines of the results log\<close>

lemma push_sample_appends:
  "read_v (push_sample V g op sz e) h = read_v V h @ read_v (push_sample empty_vecs g op sz e) h"
  "write_v (push_sample V g op sz e) h = write_v V h @ write_v (push_sample empty_vecs g op sz e) h"
  "erase_v (push_sample V g op sz e) h = erase_v V h @ erase_v (push_sample empty_vecs g op sz e) h"
  "read_us (push_sample V g op sz e) h = read_us V h @ read_us (push_sample empty_vecs g op sz e) h"
  "read_lat_ms_v (push_sample V g op sz e) h
     = read_lat_ms_v V h @ read_lat_ms_v (push_sample empty_vecs g op sz e) h"
  by (simp_all add: push_sample_def Let_def vec_push_def empty_vecs_def split: option.splits)

lemma collect_line_appends:
  "read_v (collect_line L cap V l) g = read_v V g @ read_v (collect_line L cap empty_vecs l) g"
  "write_v (collect_line L cap V l) g = write_v V g @ write_v (collect_line L cap empty_vecs l) g"
  "erase_v (collect_line L cap V l) g = erase_v V g @ erase_v (collect_line L cap empty_vecs l) g"
  "read_us (collect_line L cap V l) g = read_us V g @ read_us (collect_line L cap empty_vecs l) g"
  "read_lat_ms_v (collect_line L cap V l) g
     = read_lat_ms_v V g @ read_lat_ms_v (collect_line L cap empty_vecs l) g"
  by (simp_all add: collect_line_def push_sample_appends [of V] empty_vecs_def
      split: option.splits prod.splits)

lemma collect_fold_appends:
  "read_v (foldl (collect_line L cap) V ls) g
     = read_v V g @ concat (map (\<lambda>l. read_v (collect_line L cap empty_vecs l) g) ls)
   \<and> write_v (foldl (collect_line L cap) V ls) g
     = write_v V g @ concat (map (\<lambda>l. write_v (collect_line L cap empty_vecs l) g) ls)
   \<and> erase_v (foldl (collect_line L cap) V ls) g
     = erase_v V g @ concat (map (\<lambda>l. erase_v (collect_line L cap empty_vecs l) g) ls)
   \<and> read_us (foldl (collect_line L cap) V ls) g
     = read_us V g @ concat (map (\<lambda>l. read_us (collect_line L cap empty_vecs l) g) ls)
   \<and> read_lat_ms_v (foldl (collect_line L cap) V ls) g
     = read_lat_ms_v V g @ concat (map (\<lambda>l. read_lat_ms_v (collect_line L cap empty_vecs l) g) ls)"
proof (induction ls arbitrary: V)
  case Nil
  show ?case by simp
next
  case (Cons l ls)
  show ?case
    using Cons.IH [of "collect_line L cap V l"]
    by (simp add: collect_line_appends [of L cap V l g])
qed

lemma mset_concat_map_cong:
  assumes "mset ls = mset ls'"
  shows "mset (concat (map h ls)) = mset (concat (map h ls'))"
proof -
  have "mset (concat (map h xs)) = (\<Sum>x \<in># mset xs. mset (h x))" for xs
    by (induction xs) simp_all
  with assms show ?thesis by simp
qed

lemma collect_vecs_perm:
  assumes "mset ls = mset ls'"
  shows "mset (read_v (collect_vecs L cap ls) g) = mset (read_v (collect_vecs L cap ls') g)"
    and "mset (write_v (collect_vecs L cap ls) g) = mset (write_v (collect_vecs L cap ls') g)"
    and "mset (erase_v (collect_vecs L cap ls) g) = mset (erase_v (collect_vecs L cap ls') g)"
    and "mset (read_lat_ms_v (collect_vecs L cap ls) g) = mset (read_lat_ms_v (collect_vecs L cap ls') g)"
  using collect_fold_appends [of L cap empty_vecs ls g] collect_fold_appends [of L cap empty_vecs ls' g]
    mset_concat_map_cong [OF assms]
  by (simp_all add: collect_vecs_def empty_vecs_def)

lemma Min_insert_min:
  "finite S \<Longrightarrow> Min (insert (min a x) S) = Min (insert a (insert x S))"
  for a :: rat
  by (cases "S = {}") (simp_all add: min.assoc)

lemma Max_insert_max:
  "finite S \<Longrightarrow> Max (insert (max a x) S) = Max (insert a (insert x S))"
  for a :: rat
  by (cases "S = {}") (simp_all add: max.assoc)

lemma foldl_min: "foldl (\<lambda>m v. if v < m then v else m) a xs = Min (insert a (set xs))"
  for a :: rat
proof (induction xs arbitrary: a)
  case Nil
  show ?case by simp
next
  case (Cons x xs)
  have "(if x < a then x else a) = min a x" by simp
  then have "foldl (\<lambda>m v. if v < m then v else m) a (x # xs) = Min (insert (min a x) (set xs))"
    by (simp only: foldl_Cons Cons.IH)
  also have "\<dots> = Min (insert a (insert x (set xs)))"
    by (rule Min_insert_min) simp
  finally show ?case by simp
qed

lemma foldl_max: "foldl (\<lambda>m v. if m < v then v else m) a xs = Max (insert a (set xs))"
  for a :: rat
proof (induction xs arbitrary: a)
  case Nil
  show ?case by simp
next
  case (Cons x xs)
  have "(if a < x then x else a) = max a x" by simp
  then have "foldl (\<lambda>m v. if m < v then v else m) a (x # xs) = Max (insert (max a x) (set xs))"
    by (simp only: foldl_Cons Cons.IH)
  also have "\<dots> = Max (insert a (insert x (set xs)))"
    by (rule Max_insert_max) simp
  finally show ?case by simp
qed

lemma order_stats_perm:
  assumes "mset xs = mset ys"
  shows "order_stats (calc_stats_from_vec L xs) = order_stats (calc_stats_from_vec L ys)"
proof (cases "xs = []")
  case True
  with assms have "ys = []" by auto
  with True show ?thesis by simp
next
  case False
  with assms have ys: "ys \<noteq> []" by auto
  have len: "length xs = length ys" using assms by (rule mset_eq_length)
  have set: "set xs = set ys" using assms by (rule mset_eq_setD)
  have srt: "sort xs = sort ys"
    using assms by (intro properties_for_sort) simp_all
  have hx: "insert (hd xs) (set xs) = set xs" using False by (simp add: insert_absorb)
  have hy: "insert (hd ys) (set ys) = set xs" using ys set by (simp add: insert_absorb)
  have mn: "foldl (\<lambda>m v. if v < m then v else m) (hd xs) xs
            = foldl (\<lambda>m v. if v < m then v else m) (hd ys) ys"
    by (simp only: foldl_min hx hy)
  have mx: "foldl (\<lambda>m v. if m < v then v else m) (hd xs) xs
            = foldl (\<lambda>m v. if m < v then v else m) (hd ys) ys"
    by (simp only: foldl_max hx hy)
  show ?thesis
    using False ys
    by (simp add: order_stats_def calc_stats_from_vec_def Let_def len srt mn mx)
qed

text \<open>
  Claim C3, as amended.  For every results log and every permutation of its lines, every
  bucket has the same \<open>n\<close>, \<open>p25\<close>, \<open>p50\<close>, \<open>p75\<close>, \<open>min\<close> and \<open>max\<close>.  (The mean and the
  standard deviation are running sums in single precision, taken in the order of the log.)
\<close>

theorem stats_order_insensitive:
  assumes "mset lines = mset lines'"
  shows "order_stats (read_s (collect_aggregates L hz (Some lines) cap) g)
           = order_stats (read_s (collect_aggregates L hz (Some lines') cap) g)
       \<and> order_stats (write_s (collect_aggregates L hz (Some lines) cap) g)
           = order_stats (write_s (collect_aggregates L hz (Some lines') cap) g)
       \<and> order_stats (erase_s (collect_aggregates L hz (Some lines) cap) g)
           = order_stats (erase_s (collect_aggregates L hz (Some lines') cap) g)
       \<and> order_stats (read_lat_ms (collect_aggregates L hz (Some lines) cap) g)
           = order_stats (read_lat_ms (collect_aggregates L hz (Some lines') cap) g)"
  unfolding agg_sections
  by (intro conjI order_stats_perm collect_vecs_perm [OF assms])

lemma big_vecs:
  "erase_v (collect_vecs libc_plain 0 big_first) G_4K = [16777216, 1, 1]"
  "erase_v (collect_vecs libc_plain 0 big_last) G_4K = [1, 1, 16777216]"
  by code_simp+

lemma stats_mean_eq:
  "src \<noteq> [] \<Longrightarrow> s_mean (calc_stats_from_vec L src)
     = Fin (f32 (foldl (\<lambda>s v. f32 (s + v)) 0 src / f32 (of_nat (length src))))"
  by (simp add: calc_stats_from_vec_def Let_def)

lemma big_sums:
  "f32 (foldl (\<lambda>s v. f32 (s + v)) 0 [16777216, 1, 1] / f32 (of_nat (length [16777216, 1, 1 :: rat])))
     = 11184811 / 2"
  "f32 (foldl (\<lambda>s v. f32 (s + v)) 0 [1, 1, 16777216] / f32 (of_nat (length [1, 1, 16777216 :: rat])))
     = 5592406"
  by code_simp+

lemma big_means:
  "s_mean (calc_stats_from_vec L [16777216, 1, 1]) = Fin (11184811 / 2)"
  "s_mean (calc_stats_from_vec L [1, 1, 16777216]) = Fin 5592406"
  by (simp_all only: stats_mean_eq list.distinct not_False_eq_True big_sums)

text \<open>Three 4 KB erases of 16777216 ms, 1 ms and 1 ms: with the long one first the running
  sum stays at \<open>2\<^sup>2\<^sup>4\<close> and the mean is 5592405.5; with the long one last the sum is
  \<open>2\<^sup>2\<^sup>4 + 2\<close> and the mean is 5592406.\<close>

theorem mean_depends_on_order_counterexample:
  "mset big_first = mset big_last
   \<and> s_mean (erase_s (collect_aggregates libc_plain 0 (Some big_first) 0) G_4K) = Fin (11184811 / 2)
   \<and> s_mean (erase_s (collect_aggregates libc_plain 0 (Some big_last) 0) G_4K) = Fin 5592406"
  by (simp add: agg_sections big_vecs big_means) (simp add: big_first_def big_last_def)

theorem stats_order_insensitive_witness:
  "mset big_first = mset big_last
   \<and> order_stats (erase_s (collect_aggregates libc_plain 0 (Some big_first) 0) G_4K)
       = order_stats (erase_s (collect_aggregates libc_plain 0 (Some big_last) 0) G_4K)"
proof -
  have "mset big_first = mset big_last"
    by (simp add: big_first_def big_last_def)
  with stats_order_insensitive [of big_first big_last libc_plain 0 0 G_4K] show ?thesis
    by simp
qed

section \<open>The tokens the aggregator does not read\<close>











section \<open>The candidate lists of a cell\<close>







































end
